theory Spec2Isabelle
  imports Main "HOL-Library.Word"
begin

unbundle bit_operations_syntax

section \<open>Machine types and process outcomes\<close>

text \<open>
  The program is \<^verbatim>\<open>crda.c\<close>, a C program for Linux. \<^verbatim>\<open>int\<close> and \<^verbatim>\<open>__u32\<close> are 32 bits
  wide, \<^verbatim>\<open>size_t\<close> is 64 bits wide. An \<^verbatim>\<open>int\<close> is kept as the 32-bit word of its two's
  complement representation: \<open>sint\<close> reads it, converting it to \<^verbatim>\<open>unsigned int\<close> is the
  identity on the word, and converting it to \<^verbatim>\<open>size_t\<close> extends its sign (\<open>scast\<close>).
  \<^verbatim>\<open>int\<close> arithmetic that overflows, which C leaves undefined, wraps around.
\<close>

type_synonym u8 = "8 word"
type_synonym u32 = "32 word"
type_synonym c_int = "32 word"
type_synonym size_t = "64 word"

text \<open>A \<^verbatim>\<open>__be32\<close> is four bytes in the order in which they lie in memory.\<close>

datatype be32 = Be32 u8 u8 u8 u8

text \<open>\<^verbatim>\<open>ntohl\<close> of \<^verbatim>\<open>arpa/inet.h\<close>: the host value of a big-endian quantity.\<close>

fun ntohl :: "be32 \<Rightarrow> u32" where
  "ntohl (Be32 b0 b1 b2 b3) =
     push_bit 24 (ucast b0) OR push_bit 16 (ucast b1) OR push_bit 8 (ucast b2) OR ucast b3"

text \<open>\<^verbatim>\<open>htonl\<close>, used only to write down database files.\<close>

definition htonl :: "u32 \<Rightarrow> be32" where
  "htonl x = Be32 (ucast (drop_bit 24 x)) (ucast (drop_bit 16 x)) (ucast (drop_bit 8 x)) (ucast x)"

text \<open>
  A line written to \<^verbatim>\<open>stderr\<close>: the format string without its newline, and the argument
  of a \<^verbatim>\<open>%d\<close> where there is one.
\<close>

datatype diag = Msg string | MsgD string int

text \<open>
  What a piece of the program can do: \<open>Returns x\<close> hands \<open>x\<close> to the code that follows;
  \<open>Exits m c\<close> is \<^verbatim>\<open>fprintf(stderr, m); exit(c)\<close>, which ends the process there and
  then, whoever the caller is; \<open>Fails ms r\<close> is \<^verbatim>\<open>main\<close> leaving through one of its
  \<^verbatim>\<open>return\<close> statements (directly or by a \<^verbatim>\<open>goto\<close> to its cleanup labels) with the
  value \<open>r\<close>, after writing the lines \<open>ms\<close>; \<open>Fault\<close> is a read outside the bytes of
  the mapped file (or outside a C string), which C leaves undefined.
\<close>

datatype 'a outcome = Exits diag int | Fault | Fails "diag list" int | Returns 'a

fun obind :: "'a outcome \<Rightarrow> ('a \<Rightarrow> 'b outcome) \<Rightarrow> 'b outcome" where
  "obind (Returns x) f = f x"
| "obind (Exits m c) f = Exits m c"
| "obind Fault f = Fault"
| "obind (Fails ms r) f = Fails ms r"

section \<open>Validation of the requested country\<close>

text \<open>
  A C string is the list of its characters before the terminating NUL. Index \<open>length s\<close>
  reads the terminator; any index beyond it is outside the string.
\<close>

definition cstr_at :: "string \<Rightarrow> nat \<Rightarrow> char outcome" where
  "cstr_at s k =
     (if k < length s then Returns (s ! k)
      else if k = length s then Returns (CHR 0x00)
      else Fault)"

text \<open>The value of a \<^verbatim>\<open>char\<close> (signed, as on x86).\<close>

definition char_val :: "char \<Rightarrow> int" where
  "char_val c = sint (of_char c :: u8)"

definition isalpha_upper :: "char \<Rightarrow> bool" where
  "isalpha_upper letter = (if char_val letter \<ge> 65 \<and> char_val letter \<le> 90 then True else False)"

text \<open>\<^verbatim>\<open>&&\<close> evaluates its right operand only when the left one holds.\<close>

definition is_alpha2 :: "string \<Rightarrow> bool outcome" where
  "is_alpha2 alpha2 =
     obind (cstr_at alpha2 0) (\<lambda>c0.
       if isalpha_upper c0 then
         obind (cstr_at alpha2 1) (\<lambda>c1.
           if isalpha_upper c1 then Returns True else Returns False)
       else Returns False)"

definition is_world_regdom :: "string \<Rightarrow> bool outcome" where
  "is_world_regdom alpha2 =
     obind (cstr_at alpha2 0) (\<lambda>c0.
       if char_val c0 = 48 then
         obind (cstr_at alpha2 1) (\<lambda>c1.
           if char_val c1 = 48 then Returns True else Returns False)
       else Returns False)"

section \<open>The bounded pointer resolver\<close>

text \<open>
  A pointer into the mapped file is the offset from \<^verbatim>\<open>db\<close>. In
  \<^verbatim>\<open>p > dblen - structlen\<close> the subtraction is done in \<^verbatim>\<open>int\<close>, and its result is
  converted to \<^verbatim>\<open>unsigned int\<close> for the comparison with the \<^verbatim>\<open>__u32\<close> \<open>p\<close>.
\<close>

definition get_file_ptr :: "u8 list \<Rightarrow> c_int \<Rightarrow> c_int \<Rightarrow> be32 \<Rightarrow> nat outcome" where
  "get_file_ptr db dblen structlen ptr =
     (let p = ntohl ptr in
      if p > dblen - structlen then
        Exits (Msg ''Invalid database file, bad pointer!'') 3
      else Returns (unat p))"

section \<open>Reading the mapped file\<close>

text \<open>
  \<open>db\<close> is the list of the bytes of the mapped file. Every read checks that it stays
  inside that list; a read that does not is \<open>Fault\<close>.
\<close>

definition rd_bytes :: "u8 list \<Rightarrow> int \<Rightarrow> nat \<Rightarrow> u8 list outcome" where
  "rd_bytes db off n =
     (if 0 \<le> off \<and> nat off + n \<le> length db then Returns (take n (drop (nat off) db))
      else Fault)"

definition rd_be32 :: "u8 list \<Rightarrow> nat \<Rightarrow> be32 outcome" where
  "rd_be32 db off =
     (if off + 4 \<le> length db
      then Returns (Be32 (db ! off) (db ! (off + 1)) (db ! (off + 2)) (db ! (off + 3)))
      else Fault)"

text \<open>The C string that starts at an offset: the bytes up to the first NUL.\<close>

definition rd_cstring :: "u8 list \<Rightarrow> nat \<Rightarrow> u8 list outcome" where
  "rd_cstring db off =
     (if 0 \<in> set (drop off db) then Returns (takeWhile (\<lambda>b. b \<noteq> 0) (drop off db))
      else Fault)"

text \<open>\<^verbatim>\<open>memcmp(p, alpha2, 2) == 0\<close> for a pointer \<open>p\<close> into the file.\<close>

definition memcmp2_eq :: "u8 list \<Rightarrow> nat \<Rightarrow> u8 list \<Rightarrow> bool outcome" where
  "memcmp2_eq db off alpha2 = obind (rd_bytes db (int off) 2) (\<lambda>bs. Returns (bs = alpha2))"

subsection \<open>The records of \<^verbatim>\<open>regdb.h\<close>\<close>

text \<open>
  Modelled from the spec: the header \<^verbatim>\<open>regdb.h\<close> with the struct declarations is not
  among the sources. The field order and the sizes below are those of the binary
  database layout of the specification: header \<open>{magic, version, signature_length,
  country_table_ptr, country_count}\<close>, country \<open>{alpha2[2], padding,
  rule_collection_ptr}\<close>, rule collection \<open>{rule_count, rule_ptrs[]}\<close>, rule
  \<open>{flags, freq_range_ptr, power_rule_ptr}\<close>, frequency range \<open>{start, end, max_bw}\<close>,
  power rule \<open>{max_antenna_gain, max_eirp}\<close>; every field but \<open>alpha2\<close> is a
  \<^verbatim>\<open>__be32\<close>, and the pointer of a country record is aligned to 4 bytes.
\<close>

definition sizeof_header :: nat where "sizeof_header = 20"
definition sizeof_reg_country :: nat where "sizeof_reg_country = 8"
definition sizeof_rcoll :: nat where "sizeof_rcoll = 4"
definition sizeof_reg_rule :: nat where "sizeof_reg_rule = 12"
definition sizeof_freq_range :: nat where "sizeof_freq_range = 12"
definition sizeof_power_rule :: nat where "sizeof_power_rule = 8"
definition sizeof_be32 :: nat where "sizeof_be32 = 4"

definition header_magic :: "u8 list \<Rightarrow> nat \<Rightarrow> be32 outcome" where
  "header_magic db header = rd_be32 db header"
definition header_version :: "u8 list \<Rightarrow> nat \<Rightarrow> be32 outcome" where
  "header_version db header = rd_be32 db (header + 4)"
definition header_signature_length :: "u8 list \<Rightarrow> nat \<Rightarrow> be32 outcome" where
  "header_signature_length db header = rd_be32 db (header + 8)"
definition header_reg_country_ptr :: "u8 list \<Rightarrow> nat \<Rightarrow> be32 outcome" where
  "header_reg_country_ptr db header = rd_be32 db (header + 12)"
definition header_reg_country_num :: "u8 list \<Rightarrow> nat \<Rightarrow> be32 outcome" where
  "header_reg_country_num db header = rd_be32 db (header + 16)"

definition country_reg_collection_ptr :: "u8 list \<Rightarrow> nat \<Rightarrow> be32 outcome" where
  "country_reg_collection_ptr db country = rd_be32 db (country + 4)"

definition rcoll_reg_rule_num :: "u8 list \<Rightarrow> nat \<Rightarrow> be32 outcome" where
  "rcoll_reg_rule_num db rcoll = rd_be32 db rcoll"
definition rcoll_reg_rule_ptrs :: "u8 list \<Rightarrow> nat \<Rightarrow> nat \<Rightarrow> be32 outcome" where
  "rcoll_reg_rule_ptrs db rcoll j = rd_be32 db (rcoll + 4 + 4 * j)"

definition rule_flags :: "u8 list \<Rightarrow> nat \<Rightarrow> be32 outcome" where
  "rule_flags db rule = rd_be32 db rule"
definition rule_freq_range_ptr :: "u8 list \<Rightarrow> nat \<Rightarrow> be32 outcome" where
  "rule_freq_range_ptr db rule = rd_be32 db (rule + 4)"
definition rule_power_rule_ptr :: "u8 list \<Rightarrow> nat \<Rightarrow> be32 outcome" where
  "rule_power_rule_ptr db rule = rd_be32 db (rule + 8)"

definition freq_start_freq :: "u8 list \<Rightarrow> nat \<Rightarrow> be32 outcome" where
  "freq_start_freq db freq = rd_be32 db freq"
definition freq_end_freq :: "u8 list \<Rightarrow> nat \<Rightarrow> be32 outcome" where
  "freq_end_freq db freq = rd_be32 db (freq + 4)"
definition freq_max_bandwidth :: "u8 list \<Rightarrow> nat \<Rightarrow> be32 outcome" where
  "freq_max_bandwidth db freq = rd_be32 db (freq + 8)"

definition power_max_antenna_gain :: "u8 list \<Rightarrow> nat \<Rightarrow> be32 outcome" where
  "power_max_antenna_gain db power_r = rd_be32 db power_r"
definition power_max_eirp :: "u8 list \<Rightarrow> nat \<Rightarrow> be32 outcome" where
  "power_max_eirp db power_r = rd_be32 db (power_r + 4)"

text \<open>
  A size computed in \<^verbatim>\<open>size_t\<close> from an \<^verbatim>\<open>int\<close> count and passed for the \<^verbatim>\<open>int\<close>
  parameter \<^verbatim>\<open>structlen\<close>: the count is sign-extended, the arithmetic is modulo
  \<open>2 ^ 64\<close>, and the conversion keeps the low 32 bits.
\<close>

definition countries_size :: "c_int \<Rightarrow> c_int" where
  "countries_size num_countries =
     ucast ((of_nat sizeof_reg_country :: size_t) * scast num_countries)"

definition rcoll_size :: "c_int \<Rightarrow> c_int" where
  "rcoll_size num_rules =
     ucast ((of_nat sizeof_rcoll :: size_t) + scast num_rules * of_nat sizeof_be32)"

section \<open>The netlink message\<close>

text \<open>
  The message is the sequence of what has been appended to it. Attribute types are
  \<^verbatim>\<open>int\<close>s. The values of the enumerators of \<^verbatim>\<open>linux/nl80211.h\<close> are not part of the
  repository and are parameters.
\<close>

datatype nl_item =
    GenlHdr int int
  | NestStart int
  | NestEnd
  | PutU32 int u32
  | PutString int "u8 list"

type_synonym nl_msg = "nl_item list"

record nl80211_h =
  NL80211_CMD_SET_REG :: int
  NL80211_ATTR_REG_ALPHA2 :: int
  NL80211_ATTR_REG_RULES :: int
  NL80211_ATTR_REG_RULE_FLAGS :: int
  NL80211_ATTR_FREQ_RANGE_START :: int
  NL80211_ATTR_FREQ_RANGE_END :: int
  NL80211_ATTR_FREQ_RANGE_MAX_BW :: int
  NL80211_ATTR_POWER_RULE_MAX_ANT_GAIN :: int
  NL80211_ATTR_POWER_RULE_MAX_EIRP :: int

text \<open>
  The library libnl: which of the calls of \<^verbatim>\<open>nl80211_init\<close> succeed, the family
  identifier, whether \<^verbatim>\<open>nlmsg_alloc\<close> succeeds, and \<open>nl_room msg a\<close>, whether the library
  accepts to append \<open>a\<close> to \<open>msg\<close>.
\<close>

record libnl =
  nl_handle_alloc_ok :: bool
  genl_connect_ok :: bool
  genl_ctrl_alloc_cache_ok :: bool
  genl_ctrl_search_ok :: bool
  genl_family_id :: int
  nlmsg_alloc_ok :: bool
  nl_room :: "nl_msg \<Rightarrow> nl_item \<Rightarrow> bool"

definition nla_append :: "libnl \<Rightarrow> nl_msg \<Rightarrow> nl_item \<Rightarrow> nl_msg option" where
  "nla_append nl msg a = (if nl_room nl msg a then Some (msg @ [a]) else None)"

text \<open>The result of \<^verbatim>\<open>genlmsg_put\<close> is not looked at.\<close>

definition genlmsg_put :: "libnl \<Rightarrow> nl_msg \<Rightarrow> int \<Rightarrow> int \<Rightarrow> nl_msg" where
  "genlmsg_put nl msg family cmd =
     (case nla_append nl msg (GenlHdr family cmd) of None \<Rightarrow> msg | Some msg' \<Rightarrow> msg')"

definition nla_nest_start :: "libnl \<Rightarrow> nl_msg \<Rightarrow> int \<Rightarrow> nl_msg option" where
  "nla_nest_start nl msg attrtype = nla_append nl msg (NestStart attrtype)"

definition nla_nest_end :: "nl_msg \<Rightarrow> nl_msg" where
  "nla_nest_end msg = msg @ [NestEnd]"

definition nla_put_u32 :: "libnl \<Rightarrow> nl_msg \<Rightarrow> int \<Rightarrow> u32 \<Rightarrow> nl_msg option" where
  "nla_put_u32 nl msg attrtype v = nla_append nl msg (PutU32 attrtype v)"

definition nla_put_string :: "libnl \<Rightarrow> nl_msg \<Rightarrow> int \<Rightarrow> u8 list \<Rightarrow> nl_msg option" where
  "nla_put_string nl msg attrtype str = nla_append nl msg (PutString attrtype str)"

text \<open>
  \<^verbatim>\<open>put_reg_rule\<close>: the three pointers are resolved first, then the six values are
  appended; a failed append leaves through \<^verbatim>\<open>nla_put_failure\<close> with \<open>-1\<close>. The result
  is the returned \<^verbatim>\<open>int\<close> and the message.
\<close>

definition put_u32_field ::
  "libnl \<Rightarrow> int \<Rightarrow> be32 outcome \<Rightarrow> nl_msg \<Rightarrow> (nl_msg \<Rightarrow> (int \<times> nl_msg) outcome)
    \<Rightarrow> (int \<times> nl_msg) outcome" where
  "put_u32_field nl attrtype field msg cont =
     obind field (\<lambda>v.
       case nla_put_u32 nl msg attrtype (ntohl v) of
         None \<Rightarrow> Returns (- 1, msg)
       | Some msg' \<Rightarrow> cont msg')"

definition put_reg_rule ::
  "libnl \<Rightarrow> nl80211_h \<Rightarrow> u8 list \<Rightarrow> c_int \<Rightarrow> be32 \<Rightarrow> nl_msg \<Rightarrow> (int \<times> nl_msg) outcome" where
  "put_reg_rule nl h db dblen ruleptr msg =
     obind (get_file_ptr db dblen (of_nat sizeof_reg_rule) ruleptr) (\<lambda>rule.
     obind (rule_freq_range_ptr db rule) (\<lambda>freq_range_ptr.
     obind (get_file_ptr db dblen (of_nat sizeof_freq_range) freq_range_ptr) (\<lambda>freq.
     obind (rule_power_rule_ptr db rule) (\<lambda>power_rule_ptr.
     obind (get_file_ptr db dblen (of_nat sizeof_power_rule) power_rule_ptr) (\<lambda>power_r.
       put_u32_field nl (NL80211_ATTR_REG_RULE_FLAGS h) (rule_flags db rule) msg (\<lambda>msg.
       put_u32_field nl (NL80211_ATTR_FREQ_RANGE_START h) (freq_start_freq db freq) msg (\<lambda>msg.
       put_u32_field nl (NL80211_ATTR_FREQ_RANGE_END h) (freq_end_freq db freq) msg (\<lambda>msg.
       put_u32_field nl (NL80211_ATTR_FREQ_RANGE_MAX_BW h) (freq_max_bandwidth db freq) msg (\<lambda>msg.
       put_u32_field nl (NL80211_ATTR_POWER_RULE_MAX_ANT_GAIN h)
         (power_max_antenna_gain db power_r) msg (\<lambda>msg.
       put_u32_field nl (NL80211_ATTR_POWER_RULE_MAX_EIRP h) (power_max_eirp db power_r) msg (\<lambda>msg.
         Returns (0, msg))))))))))))"

section \<open>Signature verification\<close>

text \<open>The values of \<^verbatim>\<open>errno.h\<close> on Linux.\<close>

definition ENOENT :: int where "ENOENT = 2"
definition EIO :: int where "EIO = 5"
definition ENOMEM :: int where "ENOMEM = 12"
definition EINVAL :: int where "EINVAL = 22"
definition ENOLINK :: int where "ENOLINK = 67"

text \<open>
  The key tables \<^verbatim>\<open>keys-ssl.c\<close> and \<^verbatim>\<open>keys-gcrypt.c\<close> and the two crypto libraries are
  not part of the repository; they are parameters. With OpenSSL: whether \<^verbatim>\<open>RSA_new\<close>
  gives a key object, the digest (\<open>None\<close> when \<^verbatim>\<open>SHA1\<close> does not return its output
  buffer), the size of a key's modulus in bytes, and the result of \<^verbatim>\<open>RSA_verify\<close> for a
  digest, a signature and a key.
\<close>

record 'k openssl_lib =
  ssl_keys :: "'k list"
  RSA_new_ok :: bool
  SHA1 :: "u8 list \<Rightarrow> u8 list option"
  RSA_size :: "'k \<Rightarrow> c_int"
  RSA_verify :: "u8 list \<Rightarrow> u8 list \<Rightarrow> 'k \<Rightarrow> c_int"

text \<open>
  With libgcrypt a key is the bytes of its exponent and of its modulus;
  \<^verbatim>\<open>gcry_sexp_build\<close> gets its format string and arguments and gives no expression when
  it reports an error, as does \<^verbatim>\<open>gcry_mpi_scan\<close>; \<^verbatim>\<open>gcry_pk_verify\<close> gives its error
  code, 0 for a good signature.
\<close>

datatype gcry_key = GcryKey (key_e: "u8 list") (key_n: "u8 list")

datatype 'm sexp_arg = ArgB "u8 list" | ArgM 'm

record ('m, 's) gcrypt_lib =
  gcry_keys :: "gcry_key list"
  gcry_md_hash_buffer :: "u8 list \<Rightarrow> u8 list"
  gcry_sexp_build :: "string \<Rightarrow> 'm sexp_arg list \<Rightarrow> 's option"
  gcry_mpi_scan :: "u8 list \<Rightarrow> 'm option"
  gcry_pk_verify :: "'s \<Rightarrow> 's \<Rightarrow> 's \<Rightarrow> c_int"

text \<open>The build: \<^verbatim>\<open>-DUSE_OPENSSL\<close>, \<^verbatim>\<open>-DUSE_GCRYPT\<close>, or neither.\<close>

datatype ('k, 'm, 's) crypto =
    USE_OPENSSL "'k openssl_lib"
  | USE_GCRYPT "('m, 's) gcrypt_lib"
  | NO_CRYPTO

text \<open>
  The loop over the keys with OpenSSL (lines 289 to 300). The result is \<^verbatim>\<open>ok\<close>, which
  is set only by the iteration that leaves through \<^verbatim>\<open>break\<close>.
\<close>

function openssl_keys_loop ::
  "'k openssl_lib \<Rightarrow> u8 list \<Rightarrow> u8 list \<Rightarrow> c_int \<Rightarrow> c_int \<Rightarrow> nat \<Rightarrow> bool outcome" where
  "openssl_keys_loop L hash db dblen siglen i =
     (if i < length (ssl_keys L) then
        (if RSA_size L (ssl_keys L ! i) \<noteq> siglen then
           openssl_keys_loop L hash db dblen siglen (Suc i)
         else
           case rd_bytes db (sint dblen) (unat siglen) of
             Returns sig \<Rightarrow>
               (if RSA_verify L hash sig (ssl_keys L ! i) = 1 then Returns True
                else openssl_keys_loop L hash db dblen siglen (Suc i))
           | Exits m c \<Rightarrow> Exits m c
           | Fails ms r \<Rightarrow> Fails ms r
           | Fault \<Rightarrow> Fault)
      else Returns False)"
  by pat_completeness auto
termination
  by (relation "measure (\<lambda>(L, hash, db, dblen, siglen, i). length (ssl_keys L) - i)") auto

declare openssl_keys_loop.simps [simp del]

text \<open>Lines 276 to 312. What \<^verbatim>\<open>BN_print_fp\<close> writes to \<^verbatim>\<open>stdout\<close> is left out.\<close>

definition verify_openssl :: "'k openssl_lib \<Rightarrow> u8 list \<Rightarrow> c_int \<Rightarrow> c_int \<Rightarrow> unit outcome" where
  "verify_openssl L db dblen siglen =
     (if \<not> RSA_new_ok L then Fails [Msg ''Failed to create RSA key''] (- EINVAL)
      else
        obind (rd_bytes db 0 (unat (scast dblen :: size_t))) (\<lambda>signed.
          case SHA1 L signed of
            None \<Rightarrow> Fails [Msg ''Failed to calculate SHA sum''] (- EINVAL)
          | Some hash \<Rightarrow>
              obind (openssl_keys_loop L hash db dblen siglen 0) (\<lambda>ok.
                if \<not> ok then Fails [Msg ''Database signature wrong''] (- EINVAL)
                else Returns ())))"

text \<open>
  The loop over the keys with libgcrypt (lines 335 to 355). Every iteration converts
  and checks \<^verbatim>\<open>keys[0]\<close>.
\<close>

function gcrypt_keys_loop :: "('m, 's) gcrypt_lib \<Rightarrow> 's \<Rightarrow> 's \<Rightarrow> nat \<Rightarrow> bool outcome" where
  "gcrypt_keys_loop L signature data i =
     (if i < length (gcry_keys L) then
        (case gcry_mpi_scan L (key_e (gcry_keys L ! 0)) of
           None \<Rightarrow> Fails [Msg ''failed to convert numbers''] 2
         | Some mpi_e \<Rightarrow>
             (case gcry_mpi_scan L (key_n (gcry_keys L ! 0)) of
                None \<Rightarrow> Fails [Msg ''failed to convert numbers''] 2
              | Some mpi_n \<Rightarrow>
                  (case gcry_sexp_build L ''(public-key (rsa (n %m) (e %m)))''
                          [ArgM mpi_n, ArgM mpi_e] of
                     None \<Rightarrow> Fails [Msg ''failed to build rsa key''] 2
                   | Some rsa \<Rightarrow>
                       (if gcry_pk_verify L signature data rsa = 0 then Returns True
                        else gcrypt_keys_loop L signature data (Suc i)))))
      else Returns False)"
  by pat_completeness auto
termination
  by (relation "measure (\<lambda>(L, signature, data, i). length (gcry_keys L) - i)") auto

declare gcrypt_keys_loop.simps [simp del]

text \<open>Lines 317 to 360.\<close>

definition verify_gcrypt :: "('m, 's) gcrypt_lib \<Rightarrow> u8 list \<Rightarrow> c_int \<Rightarrow> c_int \<Rightarrow> unit outcome" where
  "verify_gcrypt L db dblen siglen =
     obind (rd_bytes db 0 (unat (scast dblen :: size_t))) (\<lambda>signed.
       let hash = gcry_md_hash_buffer L signed in
       case gcry_sexp_build L ''(data (flags pkcs1) (hash sha1 %b))'' [ArgB hash] of
         None \<Rightarrow> Fails [Msg ''failed to build data expression''] 2
       | Some data \<Rightarrow>
           obind (rd_bytes db (sint dblen) (unat (scast siglen :: size_t))) (\<lambda>sig.
             case gcry_sexp_build L ''(sig-val (rsa (s %b)))'' [ArgB sig] of
               None \<Rightarrow> Fails [Msg ''failed to build signature expression''] 2
             | Some signature \<Rightarrow>
                 obind (gcrypt_keys_loop L signature data 0) (\<lambda>ok.
                   if \<not> ok then Fails [Msg ''Database signature wrong''] 2
                   else Returns ())))"

fun verify_signature :: "('k, 'm, 's) crypto \<Rightarrow> u8 list \<Rightarrow> c_int \<Rightarrow> c_int \<Rightarrow> unit outcome" where
  "verify_signature (USE_OPENSSL L) db dblen siglen = verify_openssl L db dblen siglen"
| "verify_signature (USE_GCRYPT L) db dblen siglen = verify_gcrypt L db dblen siglen"
| "verify_signature NO_CRYPTO db dblen siglen = Returns ()"

section \<open>The program\<close>

text \<open>
  Everything \<^verbatim>\<open>main\<close> gets from outside: the argument count, the value of the
  environment variable \<^verbatim>\<open>COUNTRY\<close>, libnl and the constants of \<^verbatim>\<open>linux/nl80211.h\<close>, the
  file \<^verbatim>\<open>/usr/lib/crda/regulatory.bin\<close>, the crypto build, and the constants
  \<^verbatim>\<open>REGDB_MAGIC\<close> and \<^verbatim>\<open>REGDB_VERSION\<close> of \<^verbatim>\<open>regdb.h\<close>. \<open>Mapped db\<close> is a file of
  the bytes \<open>db\<close> that has been opened and mapped.
\<close>

datatype regdb_file = OpenFails | FstatFails | MmapFails | Mapped "u8 list"

record ('k, 'm, 's) world =
  w_argc :: int
  w_COUNTRY :: "string option"
  w_nl :: libnl
  w_h :: nl80211_h
  w_regdb :: regdb_file
  w_crypto :: "('k, 'm, 's) crypto"
  REGDB_MAGIC :: u32
  REGDB_VERSION :: u32

definition nl80211_init :: "libnl \<Rightarrow> diag list \<times> int" where
  "nl80211_init nl =
     (if \<not> nl_handle_alloc_ok nl then ([Msg ''Failed to allocate netlink handle.''], - ENOMEM)
      else if \<not> genl_connect_ok nl then ([Msg ''Failed to connect to generic netlink.''], - ENOLINK)
      else if \<not> genl_ctrl_alloc_cache_ok nl
        then ([Msg ''Failed to allocate generic netlink cache.''], - ENOMEM)
      else if \<not> genl_ctrl_search_ok nl then ([Msg ''nl80211 not found.''], - ENOENT)
      else ([], 0))"


text \<open>\<^verbatim>\<open>!is_alpha2(env_country) && !is_world_regdom(env_country)\<close> (line 217).\<close>

definition invalid_alpha2 :: "string \<Rightarrow> bool outcome" where
  "invalid_alpha2 env_country =
     obind (is_alpha2 env_country) (\<lambda>a.
       if \<not> a then obind (is_world_regdom env_country) (\<lambda>wr. Returns (\<not> wr))
       else Returns False)"

text \<open>\<^verbatim>\<open>memcpy(alpha2, env_country, 2)\<close> (line 222).\<close>

definition memcpy_alpha2 :: "string \<Rightarrow> u8 list outcome" where
  "memcpy_alpha2 env_country =
     obind (cstr_at env_country 0) (\<lambda>c0.
     obind (cstr_at env_country 1) (\<lambda>c1.
       Returns [of_char c0, of_char c1]))"

text \<open>
  Lines 250 to 272: the header, its magic and version, and the length without the
  signature. In \<^verbatim>\<open>dblen <= sizeof(*header)\<close> the \<^verbatim>\<open>int\<close> is converted to \<^verbatim>\<open>size_t\<close>. The
  result is the header, \<^verbatim>\<open>siglen\<close> and the adjusted \<^verbatim>\<open>dblen\<close>.
\<close>

definition check_header ::
  "u32 \<Rightarrow> u32 \<Rightarrow> u8 list \<Rightarrow> (nat \<times> c_int \<times> c_int) outcome" where
  "check_header magic version db =
     (let dblen = (of_nat (length db) :: c_int) in
      obind (get_file_ptr db dblen (of_nat sizeof_header) (Be32 0 0 0 0)) (\<lambda>header.
      obind (header_magic db header) (\<lambda>m.
        if ntohl m \<noteq> magic then Fails [Msg ''Invalid database magic''] (- EINVAL)
        else
      obind (header_version db header) (\<lambda>v.
        if ntohl v \<noteq> version then Fails [Msg ''Invalid database version''] (- EINVAL)
        else
      obind (header_signature_length db header) (\<lambda>sl.
        let siglen = ntohl sl; dblen = dblen - siglen in
        if (scast dblen :: size_t) \<le> of_nat sizeof_header
        then Fails [MsgD ''Invalid signature length %d'' (sint siglen)] (- EINVAL)
        else Returns (header, siglen, dblen))))))"

text \<open>
  The scan of the country table (lines 369 to 375). The result is \<^verbatim>\<open>found_country\<close> and
  the value of \<open>i\<close> after the loop.
\<close>

function country_loop ::
  "u8 list \<Rightarrow> nat \<Rightarrow> c_int \<Rightarrow> u8 list \<Rightarrow> nat \<Rightarrow> (bool \<times> nat) outcome" where
  "country_loop db countries num_countries alpha2 i =
     (if int i < sint num_countries then
        (case memcmp2_eq db (countries + sizeof_reg_country * i) alpha2 of
           Returns eq \<Rightarrow>
             (if eq then Returns (True, i)
              else country_loop db countries num_countries alpha2 (Suc i))
         | Exits m c \<Rightarrow> Exits m c
         | Fails ms r \<Rightarrow> Fails ms r
         | Fault \<Rightarrow> Fault)
      else Returns (False, i))"
  by pat_completeness auto
termination
  by (relation "measure (\<lambda>(db, countries, num_countries, alpha2, i).
        nat (sint num_countries) - i)") auto

declare country_loop.simps [simp del]

text \<open>Lines 364 to 380. The result is the index \<open>i\<close> and the pointer \<^verbatim>\<open>country\<close>.\<close>

definition find_country ::
  "u8 list \<Rightarrow> c_int \<Rightarrow> nat \<Rightarrow> u8 list \<Rightarrow> (nat \<times> nat) outcome" where
  "find_country db dblen header alpha2 =
     obind (header_reg_country_num db header) (\<lambda>n.
     let num_countries = ntohl n in
     obind (header_reg_country_ptr db header) (\<lambda>reg_country_ptr.
     obind (get_file_ptr db dblen (countries_size num_countries) reg_country_ptr) (\<lambda>countries.
     obind (country_loop db countries num_countries alpha2 0) (\<lambda>(found_country, i).
       if \<not> found_country
       then Fails [Msg ''failed to find a country match in regulatory database''] (- 1)
       else Returns (i, countries + sizeof_reg_country * i)))))"

text \<open>
  The loop over the rules (lines 407 to 418). The result is the message; \<open>r\<close> is the
  variable \<open>r\<close> of \<^verbatim>\<open>main\<close>, which a failed \<^verbatim>\<open>nla_nest_start\<close> leaves as it is.
\<close>

function rules_loop ::
  "libnl \<Rightarrow> nl80211_h \<Rightarrow> u8 list \<Rightarrow> c_int \<Rightarrow> nat \<Rightarrow> c_int \<Rightarrow> nat \<Rightarrow> nat \<Rightarrow> nl_msg \<Rightarrow> int
    \<Rightarrow> nl_msg outcome" where
  "rules_loop nl h db dblen rcoll num_rules i j msg r =
     (if int j < sint num_rules then
        (case nla_nest_start nl msg (int i) of
           None \<Rightarrow> Fails [] r
         | Some msg1 \<Rightarrow>
             (case rcoll_reg_rule_ptrs db rcoll j of
                Returns ruleptr \<Rightarrow>
                  (case put_reg_rule nl h db dblen ruleptr msg1 of
                     Returns (r', msg2) \<Rightarrow>
                       (if r' \<noteq> 0 then Fails [] r'
                        else rules_loop nl h db dblen rcoll num_rules i (Suc j)
                               (nla_nest_end msg2) r')
                   | Exits m c \<Rightarrow> Exits m c
                   | Fails ms r \<Rightarrow> Fails ms r
                   | Fault \<Rightarrow> Fault)
              | Exits m c \<Rightarrow> Exits m c
              | Fails ms r \<Rightarrow> Fails ms r
              | Fault \<Rightarrow> Fault))
      else Returns msg)"
  by pat_completeness auto
termination
  by (relation "measure (\<lambda>(nl, h, db, dblen, rcoll, num_rules, i, j, msg, r).
        nat (sint num_rules) - j)") auto

declare rules_loop.simps [simp del]

text \<open>
  Lines 382 to 420: the message for the country found. The result is the finished
  message, which the rest of \<^verbatim>\<open>main\<close> sends.
\<close>

definition put_country ::
  "libnl \<Rightarrow> nl80211_h \<Rightarrow> u8 list \<Rightarrow> c_int \<Rightarrow> nat \<Rightarrow> nat \<Rightarrow> int \<Rightarrow> nl_msg outcome" where
  "put_country nl h db dblen country i r =
     (if \<not> nlmsg_alloc_ok nl then Fails [Msg ''failed to allocate netlink msg''] (- 1)
      else
        let msg = genlmsg_put nl [] (genl_family_id nl) (NL80211_CMD_SET_REG h) in
        obind (country_reg_collection_ptr db country) (\<lambda>reg_collection_ptr.
        obind (get_file_ptr db dblen (of_nat sizeof_rcoll) reg_collection_ptr) (\<lambda>rcoll.
        obind (rcoll_reg_rule_num db rcoll) (\<lambda>n.
        let num_rules = ntohl n in
        obind (get_file_ptr db dblen (rcoll_size num_rules) reg_collection_ptr) (\<lambda>rcoll.
        obind (rd_cstring db country) (\<lambda>alpha2_str.
          case nla_put_string nl msg (NL80211_ATTR_REG_ALPHA2 h) alpha2_str of
            None \<Rightarrow> Fails [] r
          | Some msg \<Rightarrow>
              (case nla_nest_start nl msg (NL80211_ATTR_REG_RULES h) of
                 None \<Rightarrow> Fails [] (- 1)
               | Some msg \<Rightarrow>
                   obind (rules_loop nl h db dblen rcoll num_rules i 0 msg r) (\<lambda>msg.
                     Returns (nla_nest_end msg)))))))))"

text \<open>Lines 250 to 420, for the mapped file.\<close>

definition load_regdb :: "('k, 'm, 's) world \<Rightarrow> u8 list \<Rightarrow> u8 list \<Rightarrow> int \<Rightarrow> nl_msg outcome" where
  "load_regdb w alpha2 db r =
     obind (check_header (REGDB_MAGIC w) (REGDB_VERSION w) db) (\<lambda>(header, siglen, dblen).
     obind (verify_signature (w_crypto w) db dblen siglen) (\<lambda>_.
     obind (find_country db dblen header alpha2) (\<lambda>(i, country).
       put_country (w_nl w) (w_h w) db dblen country i r)))"

text \<open>
  \<^verbatim>\<open>main\<close> up to line 420. \<open>Returns msg\<close> is the point where the message is complete and
  handed to the transport.
\<close>

definition main :: "('k, 'm, 's) world \<Rightarrow> nl_msg outcome" where
  "main w =
     (if w_argc w \<noteq> 1 then Fails [Msg ''Usage: %s''] (- EINVAL)
      else
        case w_COUNTRY w of
          None \<Rightarrow> Fails [Msg ''COUNTRY environment variable not set.''] (- EINVAL)
        | Some env_country \<Rightarrow>
            obind (invalid_alpha2 env_country) (\<lambda>invalid.
              if invalid then Fails [Msg ''Invalid alpha2 set in COUNTRY''] (- EINVAL)
              else
            obind (memcpy_alpha2 env_country) (\<lambda>alpha2.
              case nl80211_init (w_nl w) of
                (ms, r) \<Rightarrow>
                  if r \<noteq> 0 then Fails ms (- EIO)
                  else
                    (case w_regdb w of
                       OpenFails \<Rightarrow> Fails [Msg ''failed to open db file''] (- ENOENT)
                     | FstatFails \<Rightarrow> Fails [Msg ''failed to fstat db file''] (- EIO)
                     | MmapFails \<Rightarrow> Fails [Msg ''failed to mmap db file''] (- EIO)
                     | Mapped db \<Rightarrow> load_regdb w alpha2 db r))))"

section \<open>The attribute tree of a message\<close>

text \<open>
  What a receiver sees in a message: a string, a 32-bit value, or a container with the
  attributes appended between its \<^verbatim>\<open>nla_nest_start\<close> and the matching \<^verbatim>\<open>nla_nest_end\<close>.
  \<open>parse_attrs\<close> reads the sequence of appended items with the stack of open containers;
  the generic netlink header is not an attribute. A sequence with an unmatched start
  or end has no tree.
\<close>

datatype nlattr =
    AttrU32 int u32
  | AttrString int "u8 list"
  | AttrNest int "nlattr list"

fun parse_attrs :: "nl_item list \<Rightarrow> (int \<times> nlattr list) list \<Rightarrow> nlattr list \<Rightarrow> nlattr list option" where
  "parse_attrs [] stack cur = (if stack = [] then Some cur else None)"
| "parse_attrs (GenlHdr family cmd # items) stack cur = parse_attrs items stack cur"
| "parse_attrs (PutU32 t v # items) stack cur = parse_attrs items stack (cur @ [AttrU32 t v])"
| "parse_attrs (PutString t str # items) stack cur =
     parse_attrs items stack (cur @ [AttrString t str])"
| "parse_attrs (NestStart t # items) stack cur = parse_attrs items ((t, cur) # stack) []"
| "parse_attrs (NestEnd # items) stack cur =
     (case stack of
        [] \<Rightarrow> None
      | (t, outer) # stack' \<Rightarrow> parse_attrs items stack' (outer @ [AttrNest t cur]))"

definition attr_tree :: "nl_msg \<Rightarrow> nlattr list option" where
  "attr_tree msg = parse_attrs msg [] []"

section \<open>Example inputs\<close>

definition be32_bytes :: "u32 \<Rightarrow> u8 list" where
  "be32_bytes x = (case htonl x of Be32 b0 b1 b2 b3 \<Rightarrow> [b0, b1, b2, b3])"

definition ex_nl :: libnl where
  "ex_nl = \<lparr> nl_handle_alloc_ok = True, genl_connect_ok = True,
             genl_ctrl_alloc_cache_ok = True, genl_ctrl_search_ok = True,
             genl_family_id = 21, nlmsg_alloc_ok = True, nl_room = (\<lambda>msg a. True) \<rparr>"

definition ex_h :: nl80211_h where
  "ex_h = \<lparr> NL80211_CMD_SET_REG = 26, NL80211_ATTR_REG_ALPHA2 = 33,
            NL80211_ATTR_REG_RULES = 34, NL80211_ATTR_REG_RULE_FLAGS = 1,
            NL80211_ATTR_FREQ_RANGE_START = 2, NL80211_ATTR_FREQ_RANGE_END = 3,
            NL80211_ATTR_FREQ_RANGE_MAX_BW = 4, NL80211_ATTR_POWER_RULE_MAX_ANT_GAIN = 5,
            NL80211_ATTR_POWER_RULE_MAX_EIRP = 6 \<rparr>"

text \<open>
  An OpenSSL with two keys of four bytes, in which a signature is good for a key when
  it is the four bytes of the key's number.
\<close>

definition ex_openssl :: "nat openssl_lib" where
  "ex_openssl = \<lparr> ssl_keys = [7, 9], RSA_new_ok = True, SHA1 = (\<lambda>bs. Some (take 20 bs)),
                  RSA_size = (\<lambda>k. 4),
                  RSA_verify = (\<lambda>hash sig k. if sig = be32_bytes (of_nat k) then 1 else 0) \<rparr>"

text \<open>The same two keys and the same signatures with libgcrypt.\<close>

definition ex_gcrypt :: "(nat, nat sexp_arg list) gcrypt_lib" where
  "ex_gcrypt = \<lparr> gcry_keys = [GcryKey [1] [7], GcryKey [1] [9]],
                 gcry_md_hash_buffer = (\<lambda>bs. take 20 bs),
                 gcry_sexp_build = (\<lambda>fmt args. Some args),
                 gcry_mpi_scan = (\<lambda>bs. Some (unat (last bs))),
                 gcry_pk_verify = (\<lambda>signature data rsa.
                    case (signature, rsa) of
                      ([ArgB sig], [ArgM mpi_n, ArgM mpi_e]) \<Rightarrow>
                        if sig = be32_bytes (of_nat mpi_n) then 0 else 8
                    | _ \<Rightarrow> 8) \<rparr>"

text \<open>
  A database of 116 bytes and a signature of 4: the countries \<open>00\<close>, \<open>US\<close> and \<open>US\<close>
  again at offset 20; an empty rule collection at 44, one of two rules at 48; the rules
  at 60 and 72, their frequency ranges at 84 and 96, and one power rule at 108.
\<close>

definition ex_signed :: "u8 list" where
  "ex_signed =
     be32_bytes 0x52474442 @ be32_bytes 19 @ be32_bytes 4 @ be32_bytes 20 @ be32_bytes 3 @
     [0x30, 0x30, 0, 0] @ be32_bytes 44 @
     [0x55, 0x53, 0, 0] @ be32_bytes 48 @
     [0x55, 0x53, 0, 0] @ be32_bytes 44 @
     be32_bytes 0 @
     be32_bytes 2 @ be32_bytes 60 @ be32_bytes 72 @
     be32_bytes 0 @ be32_bytes 84 @ be32_bytes 108 @
     be32_bytes 3 @ be32_bytes 96 @ be32_bytes 108 @
     be32_bytes 2400000 @ be32_bytes 2483500 @ be32_bytes 40000 @
     be32_bytes 5170000 @ be32_bytes 5250000 @ be32_bytes 80000 @
     be32_bytes 0 @ be32_bytes 2000"

definition ex_db :: "u8 list" where
  "ex_db = ex_signed @ be32_bytes 7"

definition ex_world :: "string \<Rightarrow> u8 list \<Rightarrow> (nat, nat, nat sexp_arg list) world" where
  "ex_world env_country db =
     \<lparr> w_argc = 1, w_COUNTRY = Some env_country, w_nl = ex_nl, w_h = ex_h,
       w_regdb = Mapped db, w_crypto = USE_OPENSSL ex_openssl,
       REGDB_MAGIC = 0x52474442, REGDB_VERSION = 19 \<rparr>"

text \<open>
  A file of ten bytes: the magic, the version and two more bytes.
\<close>

definition ex_tiny_db :: "u8 list" where
  "ex_tiny_db = be32_bytes 0x52474442 @ be32_bytes 19 @ [0, 0]"

text \<open>
  A file of 24 bytes whose header declares a signature of 100 bytes.
\<close>

definition ex_short_db :: "u8 list" where
  "ex_short_db =
     be32_bytes 0x52474442 @ be32_bytes 19 @ be32_bytes 100 @ be32_bytes 20 @ be32_bytes 0 @
     be32_bytes 7"

text \<open>
  A file of 32 bytes, 28 without the signature, whose header declares 1000 countries
  at offset 20; there is room for one, \<open>00\<close>.
\<close>

definition ex_inflated_db :: "u8 list" where
  "ex_inflated_db =
     be32_bytes 0x52474442 @ be32_bytes 19 @ be32_bytes 4 @ be32_bytes 20 @ be32_bytes 1000 @
     [0x30, 0x30, 0, 0] @ be32_bytes 0 @
     be32_bytes 7"



text \<open>The message that the example database gives for \<open>US\<close>.\<close>

definition ex_msg :: nl_msg where
  "ex_msg =
     [GenlHdr 21 26, PutString 33 [0x55, 0x53], NestStart 34,
      NestStart 1, PutU32 1 0, PutU32 2 2400000, PutU32 3 2483500, PutU32 4 40000,
      PutU32 5 0, PutU32 6 2000, NestEnd,
      NestStart 1, PutU32 1 3, PutU32 2 5170000, PutU32 3 5250000, PutU32 4 80000,
      PutU32 5 0, PutU32 6 2000, NestEnd,
      NestEnd]"

section \<open>The words of the specification\<close>

text \<open>An uppercase ASCII letter.\<close>

definition upper_ascii :: "char \<Rightarrow> bool" where
  "upper_ascii c = (65 \<le> (of_char c :: nat) \<and> (of_char c :: nat) \<le> 90)"

text \<open>A 2-letter uppercase alpha-2 code.\<close>

definition alpha2_code :: "string \<Rightarrow> bool" where
  "alpha2_code s = (length s = 2 \<and> list_all upper_ascii s)"

text \<open>A string whose first two characters are uppercase letters, or are both \<open>0\<close>.\<close>

definition alpha2_prefix :: "string \<Rightarrow> bool" where
  "alpha2_prefix s = alpha2_code (take 2 s)"

definition world_prefix :: "string \<Rightarrow> bool" where
  "world_prefix s = (take 2 s = ''00'')"

text \<open>
  The 2-byte code of record \<open>k\<close> of the country table at \<open>countries\<close>, and the first of
  \<open>n\<close> records, in table order, whose code is the requested one.
\<close>

definition country_code :: "u8 list \<Rightarrow> nat \<Rightarrow> nat \<Rightarrow> u8 list" where
  "country_code db countries k = take 2 (drop (countries + sizeof_reg_country * k) db)"

definition first_match :: "u8 list \<Rightarrow> nat \<Rightarrow> nat \<Rightarrow> u8 list \<Rightarrow> nat option" where
  "first_match db countries n alpha2 =
     List.find (\<lambda>k. country_code db countries k = alpha2) [0..<n]"

text \<open>The value of a 32-bit field of the file after network-to-host conversion.\<close>

definition host_u32_at :: "u8 list \<Rightarrow> nat \<Rightarrow> u32" where
  "host_u32_at db off = ntohl (Be32 (db ! off) (db ! (off + 1)) (db ! (off + 2)) (db ! (off + 3)))"

text \<open>
  The first matching record of the table that the header at offset 0 declares.
\<close>

definition found_index :: "u8 list \<Rightarrow> u8 list \<Rightarrow> nat option" where
  "found_index db alpha2 =
     first_match db (unat (host_u32_at db 12)) (nat (sint (host_u32_at db 16))) alpha2"

text \<open>
  A decoded rule: its flags, the three values of its frequency range and the two of
  its power rule. The decoded rule list of a country record: the rules that the
  pointers of its rule collection name, in the order of the pointers.
\<close>

record reg_rule =
  rr_flags :: u32
  rr_start_freq :: u32
  rr_end_freq :: u32
  rr_max_bandwidth :: u32
  rr_max_antenna_gain :: u32
  rr_max_eirp :: u32

definition decoded_rule :: "u8 list \<Rightarrow> nat \<Rightarrow> reg_rule" where
  "decoded_rule db rule =
     (let freq = unat (host_u32_at db (rule + 4)); power_r = unat (host_u32_at db (rule + 8))
      in \<lparr> rr_flags = host_u32_at db rule,
           rr_start_freq = host_u32_at db freq,
           rr_end_freq = host_u32_at db (freq + 4),
           rr_max_bandwidth = host_u32_at db (freq + 8),
           rr_max_antenna_gain = host_u32_at db power_r,
           rr_max_eirp = host_u32_at db (power_r + 4) \<rparr>)"

definition decoded_rules :: "u8 list \<Rightarrow> nat \<Rightarrow> reg_rule list" where
  "decoded_rules db country =
     (let rcoll = unat (host_u32_at db (country + 4));
          num_rules = nat (sint (host_u32_at db rcoll))
      in map (\<lambda>j. decoded_rule db (unat (host_u32_at db (rcoll + 4 + 4 * j)))) [0..<num_rules])"

text \<open>The container of one rule in the tree, and the items that make it in a message.\<close>

definition rule_container :: "nl80211_h \<Rightarrow> int \<Rightarrow> reg_rule \<Rightarrow> nlattr" where
  "rule_container h t rl =
     AttrNest t
       [AttrU32 (NL80211_ATTR_REG_RULE_FLAGS h) (rr_flags rl),
        AttrU32 (NL80211_ATTR_FREQ_RANGE_START h) (rr_start_freq rl),
        AttrU32 (NL80211_ATTR_FREQ_RANGE_END h) (rr_end_freq rl),
        AttrU32 (NL80211_ATTR_FREQ_RANGE_MAX_BW h) (rr_max_bandwidth rl),
        AttrU32 (NL80211_ATTR_POWER_RULE_MAX_ANT_GAIN h) (rr_max_antenna_gain rl),
        AttrU32 (NL80211_ATTR_POWER_RULE_MAX_EIRP h) (rr_max_eirp rl)]"

definition rule_items :: "nl80211_h \<Rightarrow> int \<Rightarrow> reg_rule \<Rightarrow> nl_item list" where
  "rule_items h t rl =
     [NestStart t,
      PutU32 (NL80211_ATTR_REG_RULE_FLAGS h) (rr_flags rl),
      PutU32 (NL80211_ATTR_FREQ_RANGE_START h) (rr_start_freq rl),
      PutU32 (NL80211_ATTR_FREQ_RANGE_END h) (rr_end_freq rl),
      PutU32 (NL80211_ATTR_FREQ_RANGE_MAX_BW h) (rr_max_bandwidth rl),
      PutU32 (NL80211_ATTR_POWER_RULE_MAX_ANT_GAIN h) (rr_max_antenna_gain rl),
      PutU32 (NL80211_ATTR_POWER_RULE_MAX_EIRP h) (rr_max_eirp rl),
      NestEnd]"

text \<open>
  The bounds check of the specification, offset plus size at most the usable length,
  for a usable length that is not negative.
\<close>

definition fits :: "c_int \<Rightarrow> nat \<Rightarrow> nat \<Rightarrow> bool" where
  "fits dblen off n \<longleftrightarrow> 0 \<le> sint dblen \<and> int (off + n) \<le> sint dblen"

text \<open>
  A rule whose record, frequency range and power rule pass that check. A country
  record whose rule list can be decoded: the usable length lies in the file, the
  country record, the header of its rule collection and the collection with its
  pointers pass the check, the rule count is not negative, every rule is bounded, and
  the bytes from the country code on hold a NUL.
\<close>

definition rule_bounded :: "u8 list \<Rightarrow> c_int \<Rightarrow> nat \<Rightarrow> bool" where
  "rule_bounded db dblen rule \<longleftrightarrow>
     fits dblen rule sizeof_reg_rule \<and>
     fits dblen (unat (host_u32_at db (rule + 4))) sizeof_freq_range \<and>
     fits dblen (unat (host_u32_at db (rule + 8))) sizeof_power_rule"

definition rules_bounded :: "u8 list \<Rightarrow> c_int \<Rightarrow> nat \<Rightarrow> bool" where
  "rules_bounded db dblen country \<longleftrightarrow>
     (let rcoll = unat (host_u32_at db (country + 4));
          num_rules = host_u32_at db rcoll
      in nat (sint dblen) \<le> length db \<and>
         fits dblen country sizeof_reg_country \<and>
         0 \<in> set (drop country db) \<and>
         fits dblen rcoll sizeof_rcoll \<and>
         0 \<le> sint num_rules \<and>
         fits dblen rcoll (sizeof_rcoll + sizeof_be32 * nat (sint num_rules)) \<and>
         list_all (\<lambda>j. rule_bounded db dblen (unat (host_u32_at db (rcoll + 4 + 4 * j))))
           [0..<nat (sint num_rules)])"

text \<open>
  Record \<open>i\<close> of the country table that the header at offset 0 declares, and a header
  whose table passes the check: the header and the usable length lie in the file, the
  country count is not negative, and the table with all its records is bounded.
\<close>

definition country_at :: "u8 list \<Rightarrow> nat \<Rightarrow> nat" where
  "country_at db i = unat (host_u32_at db 12) + sizeof_reg_country * i"

definition table_bounded :: "u8 list \<Rightarrow> c_int \<Rightarrow> bool" where
  "table_bounded db dblen \<longleftrightarrow>
     sizeof_header \<le> length db \<and> nat (sint dblen) \<le> length db \<and>
     0 \<le> sint (host_u32_at db 16) \<and>
     fits dblen (unat (host_u32_at db 12))
       (sizeof_reg_country * nat (sint (host_u32_at db 16)))"


text \<open>The attribute type of a container.\<close>

fun nest_type :: "nlattr \<Rightarrow> int option" where
  "nest_type (AttrNest t attrs) = Some t"
| "nest_type (AttrU32 t v) = None"
| "nest_type (AttrString t str) = None"


section \<open>Characters\<close>

lemma unat_of_char: "unat (of_char c :: u8) = (of_char c :: nat)"
proof -
  have "(of_char c :: u8) = of_nat (of_char c :: nat)" by (simp only: of_nat_of_char)
  then show ?thesis by (simp add: unat_of_nat take_bit_nat_eq_self)
qed

lemma sint_u8: "sint (w :: u8) = (if unat w < 128 then int (unat w) else int (unat w) - 256)"
proof -
  define n where "n = unat w"
  have "unat w < 2 ^ LENGTH(8)" by (rule unsigned_less)
  then have n: "n < 256" by (simp add: n_def)
  have "sint w = signed_take_bit 7 (uint w)" by (simp add: sint_uint)
  also have "\<dots> = take_bit 8 (int n + 128) - 128"
    by (simp add: signed_take_bit_eq_take_bit_shift n_def)
  also have "\<dots> = (int n + 128) mod 256 - 128" by (simp add: take_bit_eq_mod)
  also have "\<dots> = (if n < 128 then int n else int n - 256)"
  proof (cases "n < 128")
    case True
    then have "(int n + 128) mod 256 = int n + 128" by simp
    with True show ?thesis by simp
  next
    case False
    have e: "int n + 128 = int n - 128 + 256" by linarith
    have "(int n + 128) mod 256 = (int n - 128 + 256) mod 256" by (subst e) (rule refl)
    also have "\<dots> = (int n - 128) mod 256" by (simp only: mod_add_self2)
    also have "\<dots> = int n - 128" using False n by simp
    finally show ?thesis using False by simp
  qed
  finally show ?thesis by (simp add: n_def)
qed

lemma char_val_eq:
  "char_val c =
     (if (of_char c :: nat) < 128 then int (of_char c :: nat) else int (of_char c :: nat) - 256)"
  by (simp only: char_val_def sint_u8 unat_of_char)

lemma isalpha_upper_iff: "isalpha_upper c = upper_ascii c"
proof -
  define n :: nat where "n = of_char c"
  have "n < 256" by (simp add: n_def)
  then show ?thesis
    unfolding isalpha_upper_def upper_ascii_def char_val_eq n_def [symmetric] by auto
qed

lemma char_val_48: "char_val c = 48 \<longleftrightarrow> c = CHR ''0''"
proof -
  define n :: nat where "n = of_char c"
  have "n < 256" by (simp add: n_def)
  then have "char_val c = 48 \<longleftrightarrow> n = 48"
    unfolding char_val_eq n_def [symmetric] by auto
  also have "\<dots> \<longleftrightarrow> (of_char c :: nat) = of_char CHR ''0''" by (simp add: n_def)
  also have "\<dots> \<longleftrightarrow> c = CHR ''0''" by (rule of_char_eq_iff)
  finally show ?thesis .
qed

section \<open>The requested country\<close>

lemma not_upper_ascii_simps: "\<not> upper_ascii (CHR 0x00)" "\<not> upper_ascii CHR ''0''"
  by (simp_all add: upper_ascii_def)

text \<open>
  The check of line 217 in the words of the specification: a string is turned away
  exactly when its first two characters are neither two uppercase letters nor two
  zeros. No string makes the check read past the terminator.
\<close>

lemma invalid_alpha2_iff:
  "invalid_alpha2 s = Returns (\<not> alpha2_prefix s \<and> \<not> world_prefix s)"
proof (cases s)
  case Nil
  then show ?thesis
    by (simp add: invalid_alpha2_def is_alpha2_def is_world_regdom_def cstr_at_def
        isalpha_upper_iff char_val_48 not_upper_ascii_simps alpha2_prefix_def alpha2_code_def
        world_prefix_def)
next
  case (Cons c0 t)
  show ?thesis
  proof (cases t)
    case Nil
    with Cons show ?thesis
      by (simp add: invalid_alpha2_def is_alpha2_def is_world_regdom_def cstr_at_def
          isalpha_upper_iff char_val_48 not_upper_ascii_simps alpha2_prefix_def alpha2_code_def
          world_prefix_def)
  next
    case (Cons c1 rest)
    with \<open>s = c0 # t\<close> show ?thesis
      by (auto simp add: invalid_alpha2_def is_alpha2_def is_world_regdom_def cstr_at_def
          isalpha_upper_iff char_val_48 not_upper_ascii_simps alpha2_prefix_def alpha2_code_def
          world_prefix_def)
  qed
qed

lemma memcpy_alpha2_two: "memcpy_alpha2 (c0 # c1 # rest) = Returns [of_char c0, of_char c1]"
  by (simp add: memcpy_alpha2_def cstr_at_def)

lemma load_regdb_COUNTRY: "load_regdb (w\<lparr>w_COUNTRY := x\<rparr>) alpha2 db r = load_regdb w alpha2 db r"
  by (simp add: load_regdb_def)

text \<open>
  C9: the validation of the requested country looks at the first two characters only.
  Every string that starts with two uppercase ASCII letters, or with two zeros, passes
  the check of line 217 whatever follows; the two characters are what is copied for the
  comparison with the database; and \<^verbatim>\<open>main\<close>, called with one argument, goes on past
  the check to netlink and the database file and loads the database for these two
  characters, as it does for the two characters alone.
\<close>

theorem country_validation_reads_two_chars:
  assumes "(upper_ascii c0 \<and> upper_ascii c1) \<or> (c0 = CHR ''0'' \<and> c1 = CHR ''0'')"
  shows "invalid_alpha2 (c0 # c1 # rest) = Returns False \<and>
         memcpy_alpha2 (c0 # c1 # rest) = Returns [of_char c0, of_char c1] \<and>
         main (w\<lparr>w_COUNTRY := Some (c0 # c1 # rest)\<rparr>) = main (w\<lparr>w_COUNTRY := Some [c0, c1]\<rparr>) \<and>
         (w_argc w = 1 \<longrightarrow>
            main (w\<lparr>w_COUNTRY := Some (c0 # c1 # rest)\<rparr>) =
              (case nl80211_init (w_nl w) of
                 (ms, r) \<Rightarrow>
                   if r \<noteq> 0 then Fails ms (- EIO)
                   else
                     (case w_regdb w of
                        OpenFails \<Rightarrow> Fails [Msg ''failed to open db file''] (- ENOENT)
                      | FstatFails \<Rightarrow> Fails [Msg ''failed to fstat db file''] (- EIO)
                      | MmapFails \<Rightarrow> Fails [Msg ''failed to mmap db file''] (- EIO)
                      | Mapped db \<Rightarrow> load_regdb w [of_char c0, of_char c1] db r)))"
proof -
  have a: "invalid_alpha2 (c0 # c1 # rest) = Returns False" for rest
    using assms
    by (auto simp: invalid_alpha2_iff alpha2_prefix_def alpha2_code_def world_prefix_def)
  show ?thesis
    by (simp add: a memcpy_alpha2_two main_def load_regdb_COUNTRY
        split: prod.split regdb_file.split)
qed

theorem country_validation_reads_two_chars_witness:
  "((upper_ascii CHR ''U'' \<and> upper_ascii CHR ''S'') \<or>
      (CHR ''U'' = CHR ''0'' \<and> CHR ''S'' = CHR ''0'')) \<and>
   w_argc (ex_world ''XX'' ex_db) = 1 \<and>
   invalid_alpha2 ''USA'' = Returns False \<and>
   memcpy_alpha2 ''USA'' = Returns [0x55, 0x53] \<and>
   main (ex_world ''USA'' ex_db) = main (ex_world ''US'' ex_db) \<and>
   main (ex_world ''USA'' ex_db) = load_regdb (ex_world ''XX'' ex_db) [0x55, 0x53] ex_db 0 \<and>
   main (ex_world ''USA'' ex_db) = Returns ex_msg"
proof -
  have h: "(upper_ascii CHR ''U'' \<and> upper_ascii CHR ''S'') \<or>
      (CHR ''U'' = CHR ''0'' \<and> CHR ''S'' = CHR ''0'')"
    by (simp add: upper_ascii_def)
  have a: "w_argc (ex_world ''XX'' ex_db) = 1" by (simp add: ex_world_def)
  have l: "load_regdb (ex_world ''XX'' ex_db) [0x55, 0x53] ex_db 0 = Returns ex_msg"
    by code_simp
  have n: "nl80211_init ex_nl = ([], 0)" by (simp add: nl80211_init_def ex_nl_def)
  have u: "(ex_world ''XX'' ex_db)\<lparr>w_COUNTRY := Some ''USA''\<rparr> = ex_world ''USA'' ex_db"
          "(ex_world ''XX'' ex_db)\<lparr>w_COUNTRY := Some ''US''\<rparr> = ex_world ''US'' ex_db"
          "w_nl (ex_world ''XX'' ex_db) = ex_nl" "w_regdb (ex_world ''XX'' ex_db) = Mapped ex_db"
    by (simp_all add: ex_world_def)
  show ?thesis
    using h a country_validation_reads_two_chars [OF h, of "''A''" "ex_world ''XX'' ex_db"]
    by (auto simp add: u n l)
qed

text \<open>
  C8, as stated, fails: \<open>USA\<close> is neither a 2-letter uppercase code nor \<open>00\<close>, and the
  program does not turn it away; it builds the message for \<open>US\<close>.
\<close>

theorem three_letter_country_accepted:
  "\<not> alpha2_code ''USA'' \<and> ''USA'' \<noteq> ''00'' \<and>
   main (ex_world ''USA'' ex_db) \<noteq> Fails [Msg ''Invalid alpha2 set in COUNTRY''] (- EINVAL) \<and>
   attr_tree (case main (ex_world ''USA'' ex_db) of Returns msg \<Rightarrow> msg | _ \<Rightarrow> []) =
     Some [AttrString 33 [0x55, 0x53],
           AttrNest 34
            [AttrNest 1 [AttrU32 1 0, AttrU32 2 2400000, AttrU32 3 2483500, AttrU32 4 40000,
                         AttrU32 5 0, AttrU32 6 2000],
             AttrNest 1 [AttrU32 1 3, AttrU32 2 5170000, AttrU32 3 5250000, AttrU32 4 80000,
                         AttrU32 5 0, AttrU32 6 2000]]]"
  by code_simp

text \<open>
  C8, amended: for every requested string whose first two characters are neither two
  uppercase ASCII letters nor two zeros (a string of fewer than two characters is such
  a string), \<^verbatim>\<open>main\<close> returns \<open>-EINVAL\<close> with the message about \<^verbatim>\<open>COUNTRY\<close>, whatever the
  state of netlink and of the database file: neither has been touched.
\<close>

theorem invalid_country_rejected_before_database:
  assumes "w_argc w = 1" and "w_COUNTRY w = Some s"
      and "\<not> alpha2_prefix s" and "\<not> world_prefix s"
  shows "main w = Fails [Msg ''Invalid alpha2 set in COUNTRY''] (- EINVAL)"
  using assms by (simp add: main_def invalid_alpha2_iff)

theorem invalid_country_rejected_before_database_witness:
  "w_argc (ex_world ''us'' ex_db) = 1 \<and> w_COUNTRY (ex_world ''us'' ex_db) = Some ''us'' \<and>
   \<not> alpha2_prefix ''us'' \<and> \<not> world_prefix ''us'' \<and>
   main (ex_world ''us'' ex_db) = Fails [Msg ''Invalid alpha2 set in COUNTRY''] (- EINVAL)"
proof -
  have h1: "w_argc (ex_world ''us'' ex_db) = 1" by (simp add: ex_world_def)
  have h2: "w_COUNTRY (ex_world ''us'' ex_db) = Some ''us''" by (simp add: ex_world_def)
  have h3: "\<not> alpha2_prefix ''us''"
    by (simp add: alpha2_prefix_def alpha2_code_def upper_ascii_def)
  have h4: "\<not> world_prefix ''us''" by (simp add: world_prefix_def)
  show ?thesis
    using h1 h2 h3 h4 invalid_country_rejected_before_database [OF h1 h2 h3 h4] by simp
qed

section \<open>The resolver and the lengths it is given\<close>

lemma ex_US_accepted:
  "invalid_alpha2 ''US'' = Returns False" "memcpy_alpha2 ''US'' = Returns [0x55, 0x53]"
  by code_simp+

text \<open>
  For a record size that is not negative and not above the length, the check of the
  resolver is the intended one: it fails exactly when offset plus size exceeds the
  length.
\<close>

lemma nonneg_sint_unat:
  assumes "0 \<le> sint (x :: c_int)"
  shows "int (unat x) = sint x"
proof -
  have "sint x < 2 ^ (LENGTH(32) - 1)" by (rule sint_lt)
  then have "sint x < 2 ^ 32" by simp
  with assms have "take_bit 32 (sint x) = sint x" by (simp add: take_bit_int_eq_self)
  moreover have "uint x = take_bit LENGTH(32) (sint x)" by (rule uint_sint)
  ultimately show ?thesis by simp
qed

lemma get_file_ptr_in_range:
  assumes "0 \<le> sint structlen" and "sint structlen \<le> sint dblen"
  shows "get_file_ptr db dblen structlen ptr =
           (if nat (sint dblen) < unat (ntohl ptr) + nat (sint structlen)
            then Exits (Msg ''Invalid database file, bad pointer!'') 3
            else Returns (unat (ntohl ptr)))"
proof -
  have s: "int (unat structlen) = sint structlen" using assms(1) by (rule nonneg_sint_unat)
  have d: "int (unat dblen) = sint dblen" using assms by (intro nonneg_sint_unat) linarith
  from s d assms have le: "unat structlen \<le> unat dblen" by linarith
  then have "structlen \<le> dblen" by (simp add: word_le_nat_alt)
  then have sub: "unat (dblen - structlen) = unat dblen - unat structlen" by (rule unat_sub)
  have "ntohl ptr > dblen - structlen \<longleftrightarrow> unat dblen - unat structlen < unat (ntohl ptr)"
    by (simp add: word_less_nat_alt sub)
  also have "\<dots> \<longleftrightarrow> nat (sint dblen) < unat (ntohl ptr) + nat (sint structlen)"
    using le s d by (metis less_diff_conv2 nat_int)
  finally show ?thesis by (simp add: get_file_ptr_def Let_def)
qed

text \<open>
  C1: the resolver is to fail whenever offset plus record size exceeds the usable
  length, and whenever the record size alone does. The code does not: for a file of 10
  bytes and the 20 bytes of the header, \<open>dblen - structlen\<close> is \<open>-10\<close>, which the
  comparison reads as \<open>4294967286\<close>; the resolver returns offset 0, and \<^verbatim>\<open>main\<close> goes on
  to read the header's signature length at bytes 8 to 11 of the 10.
\<close>

theorem get_file_ptr_accepts_oversized_record:
  "length ex_tiny_db = 10 \<and>
   get_file_ptr ex_tiny_db 10 20 (Be32 0 0 0 0) = Returns 0 \<and>
   main (ex_world ''US'' ex_tiny_db) = Fault"
  by code_simp

text \<open>
  C3: a file shorter than the signature length its header declares is to fail with the
  message about the signature length. The code does not: for 24 bytes and a declared
  length of 100, \<open>dblen\<close> becomes \<open>-76\<close>, which \<^verbatim>\<open>dblen <= sizeof(*header)\<close> reads as a
  \<^verbatim>\<open>size_t\<close> far above 20; the check passes and the digest is taken over a length that
  runs past the file.
\<close>

theorem short_file_passes_signature_length_check:
  "length ex_short_db = 24 \<and>
   check_header 0x52474442 19 ex_short_db = Returns (0, 100, - 76) \<and>
   main (ex_world ''US'' ex_short_db) = Fault"
proof -
  have len: "length ex_short_db = 24" by code_simp
  have ch: "check_header 0x52474442 19 ex_short_db = Returns (0, 100, - 76)" by code_simp
  have vf: "verify_openssl ex_openssl ex_short_db (- 76) 100 = Fault"
    by (simp add: verify_openssl_def ex_openssl_def rd_bytes_def len)
  have "main (ex_world ''US'' ex_short_db) = Fault"
    by (simp add: main_def ex_world_def ex_US_accepted nl80211_init_def ex_nl_def
        load_regdb_def ch vf)
  with len ch show ?thesis by simp
qed

text \<open>
  C5: a country count that claims more records than fit is to fail in the resolver. The
  code does not: for 28 usable bytes and 1000 countries the size is 8000, \<open>dblen -
  structlen\<close> is negative, the resolver returns the table at offset 20, and the scan
  for \<open>US\<close> runs past the end of the file of 32 bytes.
\<close>

theorem inflated_country_count_reads_past_file:
  "length ex_inflated_db = 32 \<and>
   get_file_ptr ex_inflated_db 28 (countries_size 1000) (htonl 20) = Returns 20 \<and>
   main (ex_world ''US'' ex_inflated_db) = Fault"
  by code_simp

section \<open>The trusted keys\<close>



text \<open>
  C4: the verifier is to check the signature against key \<open>i\<close> in iteration \<open>i\<close>. With
  OpenSSL it does. With libgcrypt every iteration checks \<^verbatim>\<open>keys[0]\<close>: a database signed
  by the second of two trusted keys is accepted by the first build and refused by the
  second.
\<close>

theorem gcrypt_checks_first_key_only:
  "verify_openssl ex_openssl (ex_signed @ be32_bytes 9) 116 4 = Returns () \<and>
   verify_gcrypt ex_gcrypt (ex_signed @ be32_bytes 9) 116 4 =
     Fails [Msg ''Database signature wrong''] 2 \<and>
   main ((ex_world ''US'' (ex_signed @ be32_bytes 9)) \<lparr>w_crypto := USE_GCRYPT ex_gcrypt\<rparr>) =
     Fails [Msg ''Database signature wrong''] 2"
  by code_simp

section \<open>What a successful step has read\<close>

lemma obind_Returns: "obind x f = Returns y \<longleftrightarrow> (\<exists>v. x = Returns v \<and> f v = Returns y)"
  by (cases x) auto

lemma option_case_Returns:
  "(case x of None \<Rightarrow> Fails ms r | Some y \<Rightarrow> g y) = Returns z \<longleftrightarrow>
   (\<exists>y. x = Some y \<and> g y = Returns z)"
  by (cases x) auto

lemma rd_be32_Returns: "rd_be32 db off = Returns v \<Longrightarrow> ntohl v = host_u32_at db off"
  by (auto simp: rd_be32_def host_u32_at_def split: if_splits)

lemma get_file_ptr_Returns:
  "get_file_ptr db dblen structlen ptr = Returns p \<Longrightarrow> p = unat (ntohl ptr)"
  by (auto simp: get_file_ptr_def Let_def split: if_splits)

lemma memcmp2_eq_in_file:
  "off + 2 \<le> length db \<Longrightarrow> memcmp2_eq db off alpha2 = Returns (take 2 (drop off db) = alpha2)"
  by (simp add: memcmp2_eq_def rd_bytes_def)

lemma memcmp2_eq_Returns:
  "memcmp2_eq db off alpha2 = Returns eq \<Longrightarrow> eq = (take 2 (drop off db) = alpha2)"
  by (auto simp: memcmp2_eq_def rd_bytes_def obind_Returns split: if_splits)

lemma check_header_Returns:
  "check_header magic version db = Returns (header, siglen, dblen) \<Longrightarrow> header = 0"
  unfolding check_header_def Let_def
  by (auto simp: obind_Returns dest!: get_file_ptr_Returns split: if_splits)

section \<open>The scan of the country table\<close>

text \<open>
  When the whole table lies in the file the loop is the search for the first match.
\<close>

lemma country_loop_find:
  "countries + sizeof_reg_country * nat (sint num_countries) \<le> length db \<Longrightarrow>
   i \<le> nat (sint num_countries) \<Longrightarrow>
   country_loop db countries num_countries alpha2 i =
     (case List.find (\<lambda>k. country_code db countries k = alpha2) [i..<nat (sint num_countries)] of
        Some k \<Rightarrow> Returns (True, k)
      | None \<Rightarrow> Returns (False, nat (sint num_countries)))"
proof (induction db countries num_countries alpha2 i rule: country_loop.induct)
  case (1 db countries num_countries alpha2 i)
  let ?n = "nat (sint num_countries)"
  show ?case
  proof (cases "int i < sint num_countries")
    case False
    with "1.prems" have "i = ?n" by linarith
    then show ?thesis using False by (simp add: country_loop.simps)
  next
    case True
    then have lt: "i < ?n" by linarith
    then have ups: "[i..<?n] = i # [Suc i..<?n]" by (simp add: upt_conv_Cons)
    have "countries + sizeof_reg_country * i + 2 \<le> countries + sizeof_reg_country * ?n"
      using lt by (simp add: sizeof_reg_country_def)
    with "1.prems" have m: "memcmp2_eq db (countries + sizeof_reg_country * i) alpha2 =
             Returns (country_code db countries i = alpha2)"
      by (simp add: memcmp2_eq_in_file country_code_def)
    show ?thesis
    proof (cases "country_code db countries i = alpha2")
      case True
      then show ?thesis using \<open>int i < sint num_countries\<close> m ups
        by (simp add: country_loop.simps)
    next
      case False
      from lt have "Suc i \<le> ?n" by simp
      with "1.IH" [OF True m False] "1.prems"
      have "country_loop db countries num_countries alpha2 (Suc i) =
          (case List.find (\<lambda>k. country_code db countries k = alpha2) [Suc i..<?n] of
             Some k \<Rightarrow> Returns (True, k)
           | None \<Rightarrow> Returns (False, ?n))"
        by simp
      then show ?thesis using True m ups False
        by (simp add: country_loop.simps [of db countries num_countries alpha2 i])
    qed
  qed
qed

text \<open>
  Whenever the loop returns, with or without that, it has found the first match or
  there is none.
\<close>

lemma country_loop_Returns:
  "country_loop db countries num_countries alpha2 j = Returns (found_country, i) \<Longrightarrow>
   j \<le> nat (sint num_countries) \<Longrightarrow>
   List.find (\<lambda>k. country_code db countries k = alpha2) [j..<nat (sint num_countries)] =
     (if found_country then Some i else None)"
proof (induction db countries num_countries alpha2 j rule: country_loop.induct)
  case (1 db countries num_countries alpha2 j)
  let ?n = "nat (sint num_countries)"
  show ?case
  proof (cases "int j < sint num_countries")
    case False
    with "1.prems" have "j = ?n" by linarith
    with False "1.prems" show ?thesis by (simp add: country_loop.simps)
  next
    case True
    then have lt: "j < ?n" by linarith
    then have ups: "[j..<?n] = j # [Suc j..<?n]" by (simp add: upt_conv_Cons)
    from "1.prems"(1) True obtain eq where
      m: "memcmp2_eq db (countries + sizeof_reg_country * j) alpha2 = Returns eq"
      and rest: "if eq then found_country \<and> i = j
                 else country_loop db countries num_countries alpha2 (Suc j) =
                        Returns (found_country, i)"
      by (subst (asm) country_loop.simps) (auto split: outcome.splits if_splits)
    from m have eq: "eq = (country_code db countries j = alpha2)"
      by (simp add: country_code_def memcmp2_eq_Returns)
    show ?thesis
    proof (cases eq)
      case True
      with rest eq ups show ?thesis by simp
    next
      case False
      with rest have "country_loop db countries num_countries alpha2 (Suc j) =
                        Returns (found_country, i)" by simp
      from "1.IH" [OF True m False this] lt
      show ?thesis using False eq ups by simp
    qed
  qed
qed

lemma find_country_Returns:
  assumes "find_country db dblen header alpha2 = Returns (i, country)"
  shows "first_match db (unat (host_u32_at db (header + 12)))
           (nat (sint (host_u32_at db (header + 16)))) alpha2 = Some i \<and>
         country = unat (host_u32_at db (header + 12)) + sizeof_reg_country * i"
proof -
  from assms obtain n p countries j where
    s: "header_reg_country_num db header = Returns n"
       "header_reg_country_ptr db header = Returns p"
       "get_file_ptr db dblen (countries_size (ntohl n)) p = Returns countries"
       "country_loop db countries (ntohl n) alpha2 0 = Returns (True, j)"
       "i = j" "country = countries + sizeof_reg_country * j"
    unfolding find_country_def Let_def
    by (auto simp: obind_Returns split: if_splits)
  have n: "ntohl n = host_u32_at db (header + 16)"
    using s(1) by (auto simp: header_reg_country_num_def dest: rd_be32_Returns)
  have c: "countries = unat (host_u32_at db (header + 12))"
    using s(2,3)
    by (auto simp: header_reg_country_ptr_def dest!: rd_be32_Returns get_file_ptr_Returns)
  from country_loop_Returns [OF s(4)] show ?thesis
    by (simp add: first_match_def n c s(5,6))
qed

text \<open>
  C6: the country table is scanned in order and the first record whose two bytes equal
  the requested code is taken, whatever comes after it; when no record matches,
  \<^verbatim>\<open>main\<close> returns \<open>-1\<close> with the message that no country matches. This is for a
  table that the resolver has returned and that lies in the file.
\<close>

theorem find_country_first_match:
  assumes "header_reg_country_num db header = Returns n"
      and "header_reg_country_ptr db header = Returns p"
      and "get_file_ptr db dblen (countries_size (ntohl n)) p = Returns countries"
      and "countries + sizeof_reg_country * nat (sint (ntohl n)) \<le> length db"
  shows "find_country db dblen header alpha2 =
           (case first_match db countries (nat (sint (ntohl n))) alpha2 of
              Some i \<Rightarrow> Returns (i, countries + sizeof_reg_country * i)
            | None \<Rightarrow>
                Fails [Msg ''failed to find a country match in regulatory database''] (- 1))"
  using assms
  by (simp add: find_country_def country_loop_find first_match_def split: option.split)

theorem find_country_first_match_witness:
  "header_reg_country_num ex_db 0 = Returns (htonl 3) \<and>
   header_reg_country_ptr ex_db 0 = Returns (htonl 20) \<and>
   get_file_ptr ex_db 116 (countries_size (ntohl (htonl 3))) (htonl 20) = Returns 20 \<and>
   20 + sizeof_reg_country * nat (sint (ntohl (htonl 3))) \<le> length ex_db \<and>
   country_code ex_db 20 1 = [0x55, 0x53] \<and> country_code ex_db 20 2 = [0x55, 0x53] \<and>
   find_country ex_db 116 0 [0x55, 0x53] = Returns (1, 28) \<and>
   find_country ex_db 116 0 [0x44, 0x45] =
     Fails [Msg ''failed to find a country match in regulatory database''] (- 1)"
proof -
  have h1: "header_reg_country_num ex_db 0 = Returns (htonl 3)" by code_simp
  have h2: "header_reg_country_ptr ex_db 0 = Returns (htonl 20)" by code_simp
  have h3: "get_file_ptr ex_db 116 (countries_size (ntohl (htonl 3))) (htonl 20) = Returns 20"
    by code_simp
  have h4: "20 + sizeof_reg_country * nat (sint (ntohl (htonl 3))) \<le> length ex_db"
    by code_simp
  have c: "country_code ex_db 20 1 = [0x55, 0x53]" "country_code ex_db 20 2 = [0x55, 0x53]"
    by code_simp+
  have f: "first_match ex_db 20 (nat (sint (ntohl (htonl 3)))) [0x55, 0x53] = Some 1"
          "first_match ex_db 20 (nat (sint (ntohl (htonl 3)))) [0x44, 0x45] = None"
    by code_simp+
  show ?thesis
    using h1 h2 h3 h4 c
      find_country_first_match [OF h1 h2 h3 h4, of "[0x55, 0x53]"]
      find_country_first_match [OF h1 h2 h3 h4, of "[0x44, 0x45]"]
    by (simp add: f sizeof_reg_country_def)
qed

section \<open>The encoded rules\<close>

lemma put_u32_field_Returns:
  "put_u32_field nl t (rd_be32 db off) msg cont = Returns (r, msg') \<Longrightarrow> r = 0 \<Longrightarrow>
   cont (msg @ [PutU32 t (host_u32_at db off)]) = Returns (r, msg')"
  by (auto simp: put_u32_field_def obind_Returns nla_put_u32_def nla_append_def
      dest!: rd_be32_Returns split: option.splits if_splits)

text \<open>
  A call of \<^verbatim>\<open>put_reg_rule\<close> that returns 0 has appended the six values of the decoded
  rule, in the order of the source.
\<close>

lemma put_reg_rule_Returns:
  assumes "put_reg_rule nl h db dblen ruleptr msg = Returns (0, msg')"
  shows "msg' @ [NestEnd] = msg @ tl (rule_items h t (decoded_rule db (unat (ntohl ruleptr))))"
proof -
  from assms obtain rule fp freq pp power_r where
    a: "get_file_ptr db dblen (of_nat sizeof_reg_rule) ruleptr = Returns rule"
       "rule_freq_range_ptr db rule = Returns fp"
       "get_file_ptr db dblen (of_nat sizeof_freq_range) fp = Returns freq"
       "rule_power_rule_ptr db rule = Returns pp"
       "get_file_ptr db dblen (of_nat sizeof_power_rule) pp = Returns power_r"
    and b: "put_u32_field nl (NL80211_ATTR_REG_RULE_FLAGS h) (rule_flags db rule) msg (\<lambda>msg.
       put_u32_field nl (NL80211_ATTR_FREQ_RANGE_START h) (freq_start_freq db freq) msg (\<lambda>msg.
       put_u32_field nl (NL80211_ATTR_FREQ_RANGE_END h) (freq_end_freq db freq) msg (\<lambda>msg.
       put_u32_field nl (NL80211_ATTR_FREQ_RANGE_MAX_BW h) (freq_max_bandwidth db freq) msg (\<lambda>msg.
       put_u32_field nl (NL80211_ATTR_POWER_RULE_MAX_ANT_GAIN h)
         (power_max_antenna_gain db power_r) msg (\<lambda>msg.
       put_u32_field nl (NL80211_ATTR_POWER_RULE_MAX_EIRP h) (power_max_eirp db power_r) msg (\<lambda>msg.
         Returns (0, msg))))))) = Returns (0, msg')"
    unfolding put_reg_rule_def obind_Returns by blast
  have rule: "rule = unat (ntohl ruleptr)" using a(1) by (rule get_file_ptr_Returns)
  have freq: "freq = unat (host_u32_at db (rule + 4))"
    using a(2,3)
    by (auto simp: rule_freq_range_ptr_def dest!: rd_be32_Returns get_file_ptr_Returns)
  have pw: "power_r = unat (host_u32_at db (rule + 8))"
    using a(4,5)
    by (auto simp: rule_power_rule_ptr_def dest!: rd_be32_Returns get_file_ptr_Returns)
  note b1 = put_u32_field_Returns [OF b [unfolded rule_flags_def] refl]
  note b2 = put_u32_field_Returns [OF b1 [unfolded freq_start_freq_def] refl]
  note b3 = put_u32_field_Returns [OF b2 [unfolded freq_end_freq_def] refl]
  note b4 = put_u32_field_Returns [OF b3 [unfolded freq_max_bandwidth_def] refl]
  note b5 = put_u32_field_Returns [OF b4 [unfolded power_max_antenna_gain_def] refl]
  note b6 = put_u32_field_Returns [OF b5 [unfolded power_max_eirp_def] refl]
  from b6 show ?thesis
    by (simp add: rule_items_def decoded_rule_def Let_def rule freq pw)
qed

lemma put_reg_rule_items:
  assumes "put_reg_rule nl h db dblen ruleptr (msg @ [NestStart t]) = Returns (0, msg')"
  shows "nla_nest_end msg' = msg @ rule_items h t (decoded_rule db (unat (ntohl ruleptr)))"
  using put_reg_rule_Returns [OF assms, of t] by (simp add: nla_nest_end_def rule_items_def)

text \<open>
  A loop over the rules that returns has appended one block per rule, from \<open>j\<close> on, in
  the order of the pointers; every block is opened with the attribute type \<open>i\<close>.
\<close>

lemma rules_loop_Returns:
  "rules_loop nl h db dblen rcoll num_rules i j msg r = Returns msg' \<Longrightarrow>
   j \<le> nat (sint num_rules) \<Longrightarrow>
   msg' = msg @ concat (map (\<lambda>k. rule_items h (int i)
                                  (decoded_rule db (unat (host_u32_at db (rcoll + 4 + 4 * k)))))
                          [j..<nat (sint num_rules)])"
proof (induction nl h db dblen rcoll num_rules i j msg r rule: rules_loop.induct)
  case (1 nl h db dblen rcoll num_rules i j msg r)
  let ?n = "nat (sint num_rules)"
  let ?rule = "\<lambda>k. decoded_rule db (unat (host_u32_at db (rcoll + 4 + 4 * k)))"
  show ?case
  proof (cases "int j < sint num_rules")
    case False
    with "1.prems" have "j = ?n" by linarith
    with False "1.prems" show ?thesis by (simp add: rules_loop.simps)
  next
    case True
    then have lt: "j < ?n" by linarith
    then have ups: "[j..<?n] = j # [Suc j..<?n]" by (simp add: upt_conv_Cons)
    from "1.prems"(1) True obtain msg1 ruleptr r' msg2 where
      s: "nla_nest_start nl msg (int i) = Some msg1"
         "rcoll_reg_rule_ptrs db rcoll j = Returns ruleptr"
         "put_reg_rule nl h db dblen ruleptr msg1 = Returns (r', msg2)"
         "r' = 0"
         "rules_loop nl h db dblen rcoll num_rules i (Suc j) (nla_nest_end msg2) r' = Returns msg'"
      by (subst (asm) rules_loop.simps)
         (auto split: option.splits outcome.splits prod.splits if_splits)
    from s(1) have msg1: "msg1 = msg @ [NestStart (int i)]"
      by (auto simp: nla_nest_start_def nla_append_def split: if_splits)
    from s(2) have rp: "ntohl ruleptr = host_u32_at db (rcoll + 4 + 4 * j)"
      by (auto simp: rcoll_reg_rule_ptrs_def dest: rd_be32_Returns)
    from s(3) have m2: "nla_nest_end msg2 = msg @ rule_items h (int i) (?rule j)"
      unfolding msg1 \<open>r' = 0\<close> by (simp add: put_reg_rule_items rp)
    from lt have "Suc j \<le> ?n" by simp
    from "1.IH" [OF True s(1) s(2) s(3) refl _ s(5) this] s(4)
    have "msg' = nla_nest_end msg2 @
                 concat (map (\<lambda>k. rule_items h (int i) (?rule k)) [Suc j..<?n])"
      by simp
    then show ?thesis by (simp add: m2 ups)
  qed
qed

text \<open>The whole message of a call of lines 382 to 420 that gets to its end.\<close>

lemma put_country_items:
  assumes "put_country nl h db dblen country i r = Returns msg"
  shows "msg = genlmsg_put nl [] (genl_family_id nl) (NL80211_CMD_SET_REG h) @
               [PutString (NL80211_ATTR_REG_ALPHA2 h) (takeWhile (\<lambda>b. b \<noteq> 0) (drop country db)),
                NestStart (NL80211_ATTR_REG_RULES h)] @
               concat (map (rule_items h (int i)) (decoded_rules db country)) @ [NestEnd]"
proof -
  let ?msg0 = "genlmsg_put nl [] (genl_family_id nl) (NL80211_CMD_SET_REG h)"
  from assms obtain rp rcoll0 n rcoll str msg1 msg2 msg3 where
    s: "country_reg_collection_ptr db country = Returns rp"
       "get_file_ptr db dblen (of_nat sizeof_rcoll) rp = Returns rcoll0"
       "rcoll_reg_rule_num db rcoll0 = Returns n"
       "get_file_ptr db dblen (rcoll_size (ntohl n)) rp = Returns rcoll"
       "rd_cstring db country = Returns str"
       "nla_put_string nl ?msg0 (NL80211_ATTR_REG_ALPHA2 h) str = Some msg1"
       "nla_nest_start nl msg1 (NL80211_ATTR_REG_RULES h) = Some msg2"
       "rules_loop nl h db dblen rcoll (ntohl n) i 0 msg2 r = Returns msg3"
       "msg = nla_nest_end msg3"
    unfolding put_country_def Let_def
    by (auto simp: obind_Returns option_case_Returns split: if_splits)
  have rcoll: "rcoll = unat (host_u32_at db (country + 4))" "rcoll0 = rcoll"
    using s(1,2,4)
    by (auto simp: country_reg_collection_ptr_def dest!: rd_be32_Returns get_file_ptr_Returns)
  have n: "ntohl n = host_u32_at db rcoll"
    using s(3) rcoll by (auto simp: rcoll_reg_rule_num_def dest: rd_be32_Returns)
  have str: "str = takeWhile (\<lambda>b. b \<noteq> 0) (drop country db)"
    using s(5) by (auto simp: rd_cstring_def split: if_splits)
  have msg2: "msg2 = ?msg0 @ [PutString (NL80211_ATTR_REG_ALPHA2 h) str,
                NestStart (NL80211_ATTR_REG_RULES h)]"
    using s(6,7)
    by (auto simp: nla_put_string_def nla_nest_start_def nla_append_def split: if_splits)
  have "msg3 = msg2 @ concat (map (\<lambda>k. rule_items h (int i)
                                  (decoded_rule db (unat (host_u32_at db (rcoll + 4 + 4 * k)))))
                          [0..<nat (sint (ntohl n))])"
    using s(8) by (rule rules_loop_Returns) simp
  also have "concat (map (\<lambda>k. rule_items h (int i)
                                  (decoded_rule db (unat (host_u32_at db (rcoll + 4 + 4 * k)))))
                          [0..<nat (sint (ntohl n))]) =
             concat (map (rule_items h (int i)) (decoded_rules db country))"
    by (simp add: decoded_rules_def Let_def rcoll n comp_def)
  finally show ?thesis by (simp add: s(9) nla_nest_end_def msg2 str)
qed

lemma parse_rule_items:
  "parse_attrs (rule_items h t rl @ items) stack cur =
   parse_attrs items stack (cur @ [rule_container h t rl])"
  by (simp add: rule_items_def rule_container_def)

lemma parse_rules:
  "parse_attrs (concat (map (rule_items h t) rls) @ items) stack cur =
   parse_attrs items stack (cur @ map (rule_container h t) rls)"
  by (induction rls arbitrary: cur) (simp_all add: parse_rule_items)

lemma parse_genlmsg_put:
  "parse_attrs (genlmsg_put nl [] family cmd @ items) stack cur = parse_attrs items stack cur"
  by (simp add: genlmsg_put_def nla_append_def)

lemma put_country_tree:
  assumes "put_country nl h db dblen country i r = Returns msg"
  shows "attr_tree msg =
           Some [AttrString (NL80211_ATTR_REG_ALPHA2 h)
                   (takeWhile (\<lambda>b. b \<noteq> 0) (drop country db)),
                 AttrNest (NL80211_ATTR_REG_RULES h)
                   (map (rule_container h (int i)) (decoded_rules db country))]"
  unfolding put_country_items [OF assms] attr_tree_def parse_genlmsg_put
  using parse_rules [of h "int i" "decoded_rules db country" "[NestEnd]"]
  by simp

lemma ex_decoded:
  "decoded_rules ex_db 28 =
     [\<lparr>rr_flags = 0, rr_start_freq = 2400000, rr_end_freq = 2483500,
       rr_max_bandwidth = 40000, rr_max_antenna_gain = 0, rr_max_eirp = 2000\<rparr>,
      \<lparr>rr_flags = 3, rr_start_freq = 5170000, rr_end_freq = 5250000,
       rr_max_bandwidth = 80000, rr_max_antenna_gain = 0, rr_max_eirp = 2000\<rparr>]"
  "takeWhile (\<lambda>b. b \<noteq> 0) (drop 28 ex_db) = [0x55, 0x53]"
  by code_simp+

section \<open>Where the process ends\<close>




















section \<open>Databases that pass the bounds check\<close>

text \<open>
  For sizes and counts that are not negative and stay below \<open>2 ^ 31\<close> the C arithmetic
  is the arithmetic of the integers, and a record that passes the bounds check of the
  specification passes the check of the resolver and can be read.
\<close>

lemma sint_of_int_small:
  assumes "0 \<le> m" "m < 2 ^ 31"
  shows "sint (word_of_int m :: c_int) = m"
proof -
  have "sint (word_of_int m :: c_int) = signed_take_bit (LENGTH(32) - 1) m"
    by (rule sint_sbintrunc')
  also have "\<dots> = m"
    by (rule signed_take_bit_int_eq_self) (use assms in simp_all)
  finally show ?thesis .
qed

lemma sint_lt_2p31: "sint (x :: c_int) < 2 ^ 31"
  using sint_lt [of x] by simp

lemma rcoll_size_sint:
  assumes "0 \<le> sint num_rules" and "4 + 4 * sint num_rules < 2 ^ 31"
  shows "sint (rcoll_size num_rules) = 4 + 4 * sint num_rules"
proof -
  have a: "(of_nat sizeof_rcoll :: size_t) = word_of_int 4"
          "(of_nat sizeof_be32 :: size_t) = word_of_int 4"
    by (simp_all add: sizeof_rcoll_def sizeof_be32_def)
  have c: "(scast num_rules :: size_t) = word_of_int (sint num_rules)" by (rule scast_eq)
  have "(of_nat sizeof_rcoll :: size_t) + scast num_rules * of_nat sizeof_be32 =
        word_of_int (4 + sint num_rules * 4)"
    unfolding a c by (simp only: wi_hom_add wi_hom_mult)
  also have "4 + sint num_rules * 4 = 4 + 4 * sint num_rules" by simp
  finally have "(of_nat sizeof_rcoll :: size_t) + scast num_rules * of_nat sizeof_be32 =
        word_of_int (4 + 4 * sint num_rules)" .
  then have "rcoll_size num_rules = ucast (word_of_int (4 + 4 * sint num_rules) :: size_t)"
    unfolding rcoll_size_def by simp
  also have "\<dots> = word_of_int (4 + 4 * sint num_rules)"
    by (rule ucast_down_wi) (simp add: is_down)
  finally show ?thesis using assms by (simp only: sint_of_int_small)
qed

lemma get_file_ptr_fits:
  assumes "fits dblen (unat (ntohl ptr)) n" and "sint structlen = int n"
  shows "get_file_ptr db dblen structlen ptr = Returns (unat (ntohl ptr))"
proof -
  from assms have a: "0 \<le> sint structlen" "sint structlen \<le> sint dblen"
    unfolding fits_def by linarith+
  from assms have "\<not> nat (sint dblen) < unat (ntohl ptr) + nat (sint structlen)"
    unfolding fits_def by linarith
  with get_file_ptr_in_range [OF a] show ?thesis by simp
qed

lemma sint_sizes:
  "sint (of_nat sizeof_reg_rule :: c_int) = int sizeof_reg_rule"
  "sint (of_nat sizeof_freq_range :: c_int) = int sizeof_freq_range"
  "sint (of_nat sizeof_power_rule :: c_int) = int sizeof_power_rule"
  "sint (of_nat sizeof_rcoll :: c_int) = int sizeof_rcoll"
  by (simp_all add: sizeof_reg_rule_def sizeof_freq_range_def sizeof_power_rule_def
      sizeof_rcoll_def)

lemma rd_be32_in_file:
  "off + 4 \<le> length db \<Longrightarrow> \<exists>v. rd_be32 db off = Returns v \<and> ntohl v = host_u32_at db off"
  by (simp add: rd_be32_def host_u32_at_def)

lemma fits_in_file:
  "fits dblen off n \<Longrightarrow> nat (sint dblen) \<le> length db \<Longrightarrow> off + n \<le> length db"
  unfolding fits_def by linarith

lemma put_u32_field_accepts:
  assumes "\<forall>msg a. nl_room nl msg a" and "off + 4 \<le> length db"
  shows "put_u32_field nl t (rd_be32 db off) msg cont =
         cont (msg @ [PutU32 t (host_u32_at db off)])"
  using assms
  by (simp add: put_u32_field_def rd_be32_def host_u32_at_def nla_put_u32_def nla_append_def)

lemma put_reg_rule_total:
  assumes b: "rule_bounded db dblen (unat (ntohl ruleptr))"
      and f: "nat (sint dblen) \<le> length db"
      and acc: "\<forall>msg a. nl_room nl msg a"
  shows "\<exists>msg'. put_reg_rule nl h db dblen ruleptr msg = Returns (0, msg')"
proof -
  let ?rule = "unat (ntohl ruleptr)"
  let ?freq = "unat (host_u32_at db (?rule + 4))"
  let ?pw = "unat (host_u32_at db (?rule + 8))"
  from b have fr: "fits dblen ?rule sizeof_reg_rule" "fits dblen ?freq sizeof_freq_range"
    "fits dblen ?pw sizeof_power_rule"
    by (simp_all add: rule_bounded_def)
  from fits_in_file [OF fr(1) f] fits_in_file [OF fr(2) f] fits_in_file [OF fr(3) f]
  have len: "?rule + 12 \<le> length db" "?freq + 12 \<le> length db" "?pw + 8 \<le> length db"
    by (simp_all add: sizeof_reg_rule_def sizeof_freq_range_def sizeof_power_rule_def)
  have g1: "get_file_ptr db dblen (of_nat sizeof_reg_rule) ruleptr = Returns ?rule"
    using fr(1) by (rule get_file_ptr_fits) (rule sint_sizes)
  from len obtain fp where fp: "rd_be32 db (?rule + 4) = Returns fp"
    "ntohl fp = host_u32_at db (?rule + 4)"
    using rd_be32_in_file [of "?rule + 4" db] by auto
  from len obtain pp where pp: "rd_be32 db (?rule + 8) = Returns pp"
    "ntohl pp = host_u32_at db (?rule + 8)"
    using rd_be32_in_file [of "?rule + 8" db] by auto
  have g2: "get_file_ptr db dblen (of_nat sizeof_freq_range) fp = Returns ?freq"
    using get_file_ptr_fits [of dblen fp sizeof_freq_range _ db] fr(2)
    by (simp add: fp(2) sint_sizes)
  have g3: "get_file_ptr db dblen (of_nat sizeof_power_rule) pp = Returns ?pw"
    using get_file_ptr_fits [of dblen pp sizeof_power_rule _ db] fr(3)
    by (simp add: pp(2) sint_sizes)
  show ?thesis
    unfolding put_reg_rule_def
    using len
    by (simp add: g1 g2 g3 fp(1) pp(1) rule_freq_range_ptr_def rule_power_rule_ptr_def
        rule_flags_def freq_start_freq_def freq_end_freq_def freq_max_bandwidth_def
        power_max_antenna_gain_def power_max_eirp_def put_u32_field_accepts [OF acc])
qed

lemma rules_loop_total:
  "nat (sint dblen) \<le> length db \<Longrightarrow> \<forall>msg a. nl_room nl msg a \<Longrightarrow>
   rcoll + 4 + 4 * nat (sint num_rules) \<le> length db \<Longrightarrow>
   list_all (\<lambda>k. rule_bounded db dblen (unat (host_u32_at db (rcoll + 4 + 4 * k))))
     [j..<nat (sint num_rules)] \<Longrightarrow>
   \<exists>msg'. rules_loop nl h db dblen rcoll num_rules i j msg r = Returns msg'"
proof (induction nl h db dblen rcoll num_rules i j msg r rule: rules_loop.induct)
  case (1 nl h db dblen rcoll num_rules i j msg r)
  let ?n = "nat (sint num_rules)"
  show ?case
  proof (cases "int j < sint num_rules")
    case False
    then show ?thesis by (subst rules_loop.simps) simp
  next
    case True
    then have lt: "j < ?n" by linarith
    then have ups: "[j..<?n] = j # [Suc j..<?n]" by (simp add: upt_conv_Cons)
    let ?msg1 = "msg @ [NestStart (int i)]"
    have s1: "nla_nest_start nl msg (int i) = Some ?msg1"
      using "1.prems"(2) by (simp add: nla_nest_start_def nla_append_def)
    from lt "1.prems"(3) have "rcoll + 4 + 4 * j + 4 \<le> length db" by simp
    then obtain ruleptr where rp: "rcoll_reg_rule_ptrs db rcoll j = Returns ruleptr"
      "ntohl ruleptr = host_u32_at db (rcoll + 4 + 4 * j)"
      using rd_be32_in_file [of "rcoll + 4 + 4 * j" db] by (auto simp: rcoll_reg_rule_ptrs_def)
    from "1.prems"(4) ups have rb: "rule_bounded db dblen (unat (ntohl ruleptr))"
      and rest: "list_all (\<lambda>k. rule_bounded db dblen (unat (host_u32_at db (rcoll + 4 + 4 * k))))
     [Suc j..<?n]"
      by (simp_all add: rp(2))
    from put_reg_rule_total [OF rb "1.prems"(1,2)] obtain msg2 where
      p: "put_reg_rule nl h db dblen ruleptr ?msg1 = Returns (0, msg2)" by blast
    from "1.IH" [OF True s1 rp(1) p refl _ "1.prems"(1,2,3) rest]
    obtain msg' where "rules_loop nl h db dblen rcoll num_rules i (Suc j) (nla_nest_end msg2) 0 =
        Returns msg'" by auto
    then show ?thesis using True s1 rp(1) p
      by (subst rules_loop.simps) simp
  qed
qed

lemma put_country_total:
  assumes wf: "rules_bounded db dblen country"
      and acc: "nlmsg_alloc_ok nl" "\<forall>msg a. nl_room nl msg a"
  shows "\<exists>msg. put_country nl h db dblen country i r = Returns msg"
proof -
  let ?rcoll = "unat (host_u32_at db (country + 4))"
  let ?num = "host_u32_at db ?rcoll"
  from wf have w: "nat (sint dblen) \<le> length db" "fits dblen country sizeof_reg_country"
    "0 \<in> set (drop country db)" "fits dblen ?rcoll sizeof_rcoll" "0 \<le> sint ?num"
    "fits dblen ?rcoll (sizeof_rcoll + sizeof_be32 * nat (sint ?num))"
    "list_all (\<lambda>j. rule_bounded db dblen (unat (host_u32_at db (?rcoll + 4 + 4 * j))))
           [0..<nat (sint ?num)]"
    by (simp_all add: rules_bounded_def Let_def)
  from fits_in_file [OF w(2,1)] have "country + 4 + 4 \<le> length db"
    by (simp add: sizeof_reg_country_def)
  then obtain rp where rp: "country_reg_collection_ptr db country = Returns rp"
    "ntohl rp = host_u32_at db (country + 4)"
    using rd_be32_in_file [of "country + 4" db] by (auto simp: country_reg_collection_ptr_def)
  have g1: "get_file_ptr db dblen (of_nat sizeof_rcoll) rp = Returns ?rcoll"
    using get_file_ptr_fits [of dblen rp sizeof_rcoll _ db] w(4) by (simp add: rp(2) sint_sizes)
  from fits_in_file [OF w(4,1)] have "?rcoll + 4 \<le> length db" by (simp add: sizeof_rcoll_def)
  then obtain n where n: "rcoll_reg_rule_num db ?rcoll = Returns n" "ntohl n = ?num"
    using rd_be32_in_file [of ?rcoll db] by (auto simp: rcoll_reg_rule_num_def)
  from w(6) have bound: "int ?rcoll + (4 + 4 * sint ?num) \<le> sint dblen"
    using w(5) by (simp add: fits_def sizeof_rcoll_def sizeof_be32_def)
  have "sint dblen < 2 ^ 31" by (rule sint_lt_2p31)
  with bound have "4 + 4 * sint ?num < 2 ^ 31" by linarith
  with w(5) have sz: "sint (rcoll_size ?num) = 4 + 4 * sint ?num" by (rule rcoll_size_sint)
  have g2: "get_file_ptr db dblen (rcoll_size (ntohl n)) rp = Returns ?rcoll"
    using get_file_ptr_fits [of dblen rp "sizeof_rcoll + sizeof_be32 * nat (sint ?num)" _ db] w(5,6)
    by (simp add: rp(2) n(2) sz sizeof_rcoll_def sizeof_be32_def)
  from fits_in_file [OF w(6,1)] have len: "?rcoll + 4 + 4 * nat (sint ?num) \<le> length db"
    by (simp add: sizeof_rcoll_def sizeof_be32_def)
  let ?msg0 = "genlmsg_put nl [] (genl_family_id nl) (NL80211_CMD_SET_REG h)"
  let ?msg2 = "?msg0 @ [PutString (NL80211_ATTR_REG_ALPHA2 h) (takeWhile (\<lambda>b. b \<noteq> 0) (drop country db)),
                NestStart (NL80211_ATTR_REG_RULES h)]"
  from rules_loop_total [OF w(1) acc(2) len, of 0 h i ?msg2 r] w(7) n(2)
  obtain msg3 where l: "rules_loop nl h db dblen ?rcoll (ntohl n) i 0 ?msg2 r = Returns msg3"
    by (auto simp: n(2))
  show ?thesis
    unfolding put_country_def Let_def
    using acc w(3) l
    by (simp add: rp(1) g1 n(1) g2 rd_cstring_def nla_put_string_def nla_nest_start_def
        nla_append_def)
qed


lemma countries_size_sint:
  assumes "0 \<le> sint num_countries" and "8 * sint num_countries < 2 ^ 31"
  shows "sint (countries_size num_countries) = 8 * sint num_countries"
proof -
  have a: "(of_nat sizeof_reg_country :: size_t) = word_of_int 8"
    by (simp add: sizeof_reg_country_def)
  have c: "(scast num_countries :: size_t) = word_of_int (sint num_countries)" by (rule scast_eq)
  have "(of_nat sizeof_reg_country :: size_t) * scast num_countries =
        word_of_int (8 * sint num_countries)"
    unfolding a c by (simp only: wi_hom_mult)
  then have "countries_size num_countries =
      ucast (word_of_int (8 * sint num_countries) :: size_t)"
    unfolding countries_size_def by simp
  also have "\<dots> = word_of_int (8 * sint num_countries)"
    by (rule ucast_down_wi) (simp add: is_down)
  finally show ?thesis using assms by (simp only: sint_of_int_small)
qed

lemma find_country_in_file:
  assumes "header_reg_country_num db header = Returns n"
      and "header_reg_country_ptr db header = Returns p"
      and "get_file_ptr db dblen (countries_size (ntohl n)) p = Returns countries"
      and "countries + sizeof_reg_country * nat (sint (ntohl n)) \<le> length db"
  shows "find_country db dblen header alpha2 =
           (case first_match db countries (nat (sint (ntohl n))) alpha2 of
              Some i \<Rightarrow> Returns (i, countries + sizeof_reg_country * i)
            | None \<Rightarrow>
                Fails [Msg ''failed to find a country match in regulatory database''] (- 1))"
  using assms
  by (simp add: find_country_def country_loop_find first_match_def split: option.split)

lemma find_country_bounded:
  assumes tb: "table_bounded db dblen"
  shows "find_country db dblen 0 alpha2 =
           (case found_index db alpha2 of
              Some i \<Rightarrow> Returns (i, country_at db i)
            | None \<Rightarrow>
                Fails [Msg ''failed to find a country match in regulatory database''] (- 1))"
proof -
  let ?num = "host_u32_at db 16"
  let ?c = "unat (host_u32_at db 12)"
  from tb have t: "20 \<le> length db" "nat (sint dblen) \<le> length db" "0 \<le> sint ?num"
    "fits dblen ?c (sizeof_reg_country * nat (sint ?num))"
    by (simp_all add: table_bounded_def sizeof_header_def)
  from t(1) obtain n where n: "header_reg_country_num db 0 = Returns n" "ntohl n = ?num"
    using rd_be32_in_file [of 16 db] by (auto simp: header_reg_country_num_def)
  from t(1) obtain p where p: "header_reg_country_ptr db 0 = Returns p"
    "ntohl p = host_u32_at db 12"
    using rd_be32_in_file [of 12 db] by (auto simp: header_reg_country_ptr_def)
  from t(3,4) have bound: "8 * sint ?num \<le> sint dblen"
    unfolding fits_def sizeof_reg_country_def by linarith
  have "sint dblen < 2 ^ 31" by (rule sint_lt_2p31)
  with bound have "8 * sint ?num < 2 ^ 31" by linarith
  with t(3) have sz: "sint (countries_size ?num) = 8 * sint ?num" by (rule countries_size_sint)
  have g: "get_file_ptr db dblen (countries_size (ntohl n)) p = Returns ?c"
    using get_file_ptr_fits [of dblen p "sizeof_reg_country * nat (sint ?num)" _ db] t(3,4)
    by (simp add: p(2) n(2) sz sizeof_reg_country_def)
  from fits_in_file [OF t(4,2)]
  have f: "?c + sizeof_reg_country * nat (sint (ntohl n)) \<le> length db" by (simp add: n(2))
  show ?thesis
    unfolding find_country_in_file [OF n(1) p(1) g f]
    by (simp add: found_index_def country_at_def n(2) split: option.split)
qed

lemma load_regdb_total:
  assumes "check_header (REGDB_MAGIC w) (REGDB_VERSION w) db = Returns (header, siglen, dblen)"
      and "verify_signature (w_crypto w) db dblen siglen = Returns ()"
      and "table_bounded db dblen"
      and "found_index db alpha2 = Some i"
      and "rules_bounded db dblen (country_at db i)"
      and "nlmsg_alloc_ok (w_nl w)" and "\<forall>msg a. nl_room (w_nl w) msg a"
  shows "\<exists>msg. load_regdb w alpha2 db r = Returns msg"
proof -
  from assms(1) have h: "header = 0" by (rule check_header_Returns)
  from find_country_bounded [OF assms(3), of alpha2] assms(4)
  have f: "find_country db dblen 0 alpha2 = Returns (i, country_at db i)" by simp
  from put_country_total [OF assms(5,6,7)]
  obtain msg where "put_country (w_nl w) (w_h w) db dblen (country_at db i) i r = Returns msg"
    by blast
  then show ?thesis
    using assms(1,2) f by (simp add: load_regdb_def h)
qed

lemma load_regdb_tree:
  assumes "load_regdb w alpha2 db r = Returns msg"
  shows "\<exists>i. found_index db alpha2 = Some i \<and>
           attr_tree msg =
             Some [AttrString (NL80211_ATTR_REG_ALPHA2 (w_h w))
                     (takeWhile (\<lambda>b. b \<noteq> 0) (drop (country_at db i) db)),
                   AttrNest (NL80211_ATTR_REG_RULES (w_h w))
                     (map (rule_container (w_h w) (int i)) (decoded_rules db (country_at db i)))]"
proof -
  from assms obtain header siglen dblen i country where
    s: "check_header (REGDB_MAGIC w) (REGDB_VERSION w) db = Returns (header, siglen, dblen)"
       "find_country db dblen header alpha2 = Returns (i, country)"
       "put_country (w_nl w) (w_h w) db dblen country i r = Returns msg"
    unfolding load_regdb_def by (auto simp: obind_Returns)
  from s(1) have "header = 0" by (rule check_header_Returns)
  with find_country_Returns [OF s(2)]
  have i: "found_index db alpha2 = Some i" "country = country_at db i"
    by (simp_all add: found_index_def country_at_def)
  from put_country_tree [OF s(3)] i show ?thesis by auto
qed

lemma nest_type_rule_containers:
  "map nest_type (map (rule_container h t) rls) = replicate (length rls) (Some t)"
  by (simp add: rule_container_def comp_def map_replicate_const)

text \<open>
  C7: whenever the message for a country is completed, its tree is the country string
  followed by the container of the rules, and that container holds one container per
  decoded rule, in the order of the decoded list, each with the rule's flags, start
  frequency, end frequency, maximum bandwidth, maximum antenna gain and maximum EIRP,
  the values of the file after network-to-host conversion. And the message is
  completed, with that tree, for every country record whose rule list passes the bounds
  checks, when libnl gives a message and accepts what is appended.
\<close>

theorem encoded_rules_match_decoded:
  "(put_country nl h db dblen country i r = Returns msg \<longrightarrow>
      attr_tree msg =
        Some [AttrString (NL80211_ATTR_REG_ALPHA2 h)
                (takeWhile (\<lambda>b. b \<noteq> 0) (drop country db)),
              AttrNest (NL80211_ATTR_REG_RULES h)
                (map (rule_container h (int i)) (decoded_rules db country))]) \<and>
   (rules_bounded db dblen country \<and> nlmsg_alloc_ok nl \<and> (\<forall>m a. nl_room nl m a) \<longrightarrow>
      (\<exists>m. put_country nl h db dblen country i r = Returns m \<and>
           attr_tree m =
             Some [AttrString (NL80211_ATTR_REG_ALPHA2 h)
                     (takeWhile (\<lambda>b. b \<noteq> 0) (drop country db)),
                   AttrNest (NL80211_ATTR_REG_RULES h)
                     (map (rule_container h (int i)) (decoded_rules db country))]))"
proof (intro conjI impI)
  assume "put_country nl h db dblen country i r = Returns msg"
  then show "attr_tree msg =
        Some [AttrString (NL80211_ATTR_REG_ALPHA2 h)
                (takeWhile (\<lambda>b. b \<noteq> 0) (drop country db)),
              AttrNest (NL80211_ATTR_REG_RULES h)
                (map (rule_container h (int i)) (decoded_rules db country))]"
    by (rule put_country_tree)
next
  assume "rules_bounded db dblen country \<and> nlmsg_alloc_ok nl \<and> (\<forall>m a. nl_room nl m a)"
  then obtain m where m: "put_country nl h db dblen country i r = Returns m"
    using put_country_total [of db dblen country nl h i r] by blast
  from m put_country_tree [OF m]
  show "\<exists>m. put_country nl h db dblen country i r = Returns m \<and>
           attr_tree m =
             Some [AttrString (NL80211_ATTR_REG_ALPHA2 h)
                     (takeWhile (\<lambda>b. b \<noteq> 0) (drop country db)),
                   AttrNest (NL80211_ATTR_REG_RULES h)
                     (map (rule_container h (int i)) (decoded_rules db country))]"
    by blast
qed

lemma ex_nl_accepts: "nlmsg_alloc_ok ex_nl" "\<forall>m a. nl_room ex_nl m a"
  by (simp_all add: ex_nl_def)

theorem encoded_rules_match_decoded_witness:
  "rules_bounded ex_db 116 28 \<and> nlmsg_alloc_ok ex_nl \<and> (\<forall>m a. nl_room ex_nl m a) \<and>
   put_country ex_nl ex_h ex_db 116 28 1 0 = Returns ex_msg \<and>
   attr_tree ex_msg =
     Some [AttrString 33 [0x55, 0x53],
           AttrNest 34
            [AttrNest 1 [AttrU32 1 0, AttrU32 2 2400000, AttrU32 3 2483500, AttrU32 4 40000,
                         AttrU32 5 0, AttrU32 6 2000],
             AttrNest 1 [AttrU32 1 3, AttrU32 2 5170000, AttrU32 3 5250000, AttrU32 4 80000,
                         AttrU32 5 0, AttrU32 6 2000]]]"
proof -
  have b: "rules_bounded ex_db 116 28" by code_simp
  note T = encoded_rules_match_decoded [of ex_nl ex_h ex_db 116 28 1 0 ex_msg]
  from T b ex_nl_accepts obtain m where
    m: "put_country ex_nl ex_h ex_db 116 28 1 0 = Returns m" by blast
  have "put_country ex_nl ex_h ex_db 116 28 1 0 = Returns ex_msg" by code_simp
  with m have h: "put_country ex_nl ex_h ex_db 116 28 1 0 = Returns ex_msg" by simp
  with T have "attr_tree ex_msg =
        Some [AttrString (NL80211_ATTR_REG_ALPHA2 ex_h)
                (takeWhile (\<lambda>b. b \<noteq> 0) (drop 28 ex_db)),
              AttrNest (NL80211_ATTR_REG_RULES ex_h)
                (map (rule_container ex_h (int 1)) (decoded_rules ex_db 28))]"
    by blast
  with b ex_nl_accepts h show ?thesis
    by (simp add: ex_decoded rule_container_def ex_h_def)
qed

text \<open>
  C10: whenever the load of a mapped file completes the message, the requested code
  has a first match in the country table that the header declares, at some index \<open>i\<close>;
  the rule container of the tree holds one container for each decoded rule of record
  \<open>i\<close>, and every one of them is opened with the attribute type \<open>i\<close>, the same for all
  rules: the position of a rule in its collection plays no part. And the load completes
  the message whenever the header check and the signature check pass, the table and the
  rule list of the first match pass the bounds checks, and libnl gives a message and
  accepts what is appended.
\<close>

theorem rule_containers_typed_by_country_index:
  "(load_regdb w req db r = Returns msg \<longrightarrow>
      (\<exists>i. found_index db req = Some i \<and>
         attr_tree msg =
           Some [AttrString (NL80211_ATTR_REG_ALPHA2 (w_h w))
                   (takeWhile (\<lambda>b. b \<noteq> 0) (drop (country_at db i) db)),
                 AttrNest (NL80211_ATTR_REG_RULES (w_h w))
                   (map (rule_container (w_h w) (int i)) (decoded_rules db (country_at db i)))] \<and>
         map nest_type
           (map (rule_container (w_h w) (int i)) (decoded_rules db (country_at db i))) =
         replicate (length (decoded_rules db (country_at db i))) (Some (int i)))) \<and>
   (check_header (REGDB_MAGIC w) (REGDB_VERSION w) db = Returns (header, siglen, dblen) \<and>
    verify_signature (w_crypto w) db dblen siglen = Returns () \<and>
    table_bounded db dblen \<and> found_index db req = Some j \<and>
    rules_bounded db dblen (country_at db j) \<and>
    nlmsg_alloc_ok (w_nl w) \<and> (\<forall>m a. nl_room (w_nl w) m a) \<longrightarrow>
      (\<exists>m. load_regdb w req db r = Returns m))"
proof (intro conjI impI)
  assume "load_regdb w req db r = Returns msg"
  from load_regdb_tree [OF this] nest_type_rule_containers
  show "\<exists>i. found_index db req = Some i \<and>
         attr_tree msg =
           Some [AttrString (NL80211_ATTR_REG_ALPHA2 (w_h w))
                   (takeWhile (\<lambda>b. b \<noteq> 0) (drop (country_at db i) db)),
                 AttrNest (NL80211_ATTR_REG_RULES (w_h w))
                   (map (rule_container (w_h w) (int i)) (decoded_rules db (country_at db i)))] \<and>
         map nest_type
           (map (rule_container (w_h w) (int i)) (decoded_rules db (country_at db i))) =
         replicate (length (decoded_rules db (country_at db i))) (Some (int i))"
    by blast
next
  assume "check_header (REGDB_MAGIC w) (REGDB_VERSION w) db = Returns (header, siglen, dblen) \<and>
    verify_signature (w_crypto w) db dblen siglen = Returns () \<and>
    table_bounded db dblen \<and> found_index db req = Some j \<and>
    rules_bounded db dblen (country_at db j) \<and>
    nlmsg_alloc_ok (w_nl w) \<and> (\<forall>m a. nl_room (w_nl w) m a)"
  then show "\<exists>m. load_regdb w req db r = Returns m"
    using load_regdb_total [of w db header siglen dblen req j r] by blast
qed

lemma ex_tree:
  "attr_tree ex_msg =
     Some [AttrString 33 [0x55, 0x53],
           AttrNest 34
            [AttrNest 1 [AttrU32 1 0, AttrU32 2 2400000, AttrU32 3 2483500, AttrU32 4 40000,
                         AttrU32 5 0, AttrU32 6 2000],
             AttrNest 1 [AttrU32 1 3, AttrU32 2 5170000, AttrU32 3 5250000, AttrU32 4 80000,
                         AttrU32 5 0, AttrU32 6 2000]]]"
  by code_simp

theorem rule_containers_typed_by_country_index_witness:
  "check_header (REGDB_MAGIC (ex_world ''US'' ex_db)) (REGDB_VERSION (ex_world ''US'' ex_db))
     ex_db = Returns (0, 4, 116) \<and>
   verify_signature (w_crypto (ex_world ''US'' ex_db)) ex_db 116 4 = Returns () \<and>
   table_bounded ex_db 116 \<and> found_index ex_db [0x55, 0x53] = Some 1 \<and>
   rules_bounded ex_db 116 (country_at ex_db 1) \<and>
   nlmsg_alloc_ok (w_nl (ex_world ''US'' ex_db)) \<and>
   (\<forall>m a. nl_room (w_nl (ex_world ''US'' ex_db)) m a) \<and>
   load_regdb (ex_world ''US'' ex_db) [0x55, 0x53] ex_db 0 = Returns ex_msg \<and>
   (\<exists>a k0 k1. attr_tree ex_msg = Some [a, AttrNest 34 [k0, k1]] \<and>
      map nest_type [k0, k1] = [Some 1, Some 1])"
proof -
  let ?w = "ex_world ''US'' ex_db"
  have c: "check_header (REGDB_MAGIC ?w) (REGDB_VERSION ?w) ex_db = Returns (0, 4, 116)"
    by code_simp
  have v: "verify_signature (w_crypto ?w) ex_db 116 4 = Returns ()" by code_simp
  have t: "table_bounded ex_db 116" by code_simp
  have f: "found_index ex_db [0x55, 0x53] = Some 1" by code_simp
  have b: "rules_bounded ex_db 116 (country_at ex_db 1)" by code_simp
  have n: "nlmsg_alloc_ok (w_nl ?w)" "\<forall>m a. nl_room (w_nl ?w) m a"
    by (simp_all add: ex_world_def ex_nl_def)
  note T = rule_containers_typed_by_country_index [where w = ?w and req = "[0x55, 0x53]"
      and db = ex_db and r = 0 and msg = ex_msg and header = 0 and siglen = 4 and dblen = 116
      and j = 1]
  from T c v t f b n obtain m where
    m: "load_regdb ?w [0x55, 0x53] ex_db 0 = Returns m" by blast
  have "load_regdb ?w [0x55, 0x53] ex_db 0 = Returns ex_msg" by code_simp
  with m have h: "load_regdb ?w [0x55, 0x53] ex_db 0 = Returns ex_msg" by simp
  with T obtain i where
    i: "found_index ex_db [0x55, 0x53] = Some i"
       "map nest_type
           (map (rule_container (w_h ?w) (int i)) (decoded_rules ex_db (country_at ex_db i))) =
         replicate (length (decoded_rules ex_db (country_at ex_db i))) (Some (int i))"
    by blast
  from i(1) f have "i = 1" by simp
  have ca: "country_at ex_db 1 = 28" by code_simp
  from i(2) have "map nest_type [AttrNest 1 [AttrU32 1 0, AttrU32 2 2400000, AttrU32 3 2483500,
                         AttrU32 4 40000, AttrU32 5 0, AttrU32 6 2000],
             AttrNest 1 [AttrU32 1 3, AttrU32 2 5170000, AttrU32 3 5250000, AttrU32 4 80000,
                         AttrU32 5 0, AttrU32 6 2000]] = [Some 1, Some 1]"
    by (simp add: \<open>i = 1\<close> ca ex_decoded rule_container_def ex_world_def ex_h_def)
  with c v t f b n h ex_tree show ?thesis by auto
qed

section \<open>Failures and how they leave\<close>















end
